theory Spec2Isabelle
  imports Main "HOL-Library.Word"
begin

section \<open>The workflow engine of \<^verbatim>\<open>workflow/aggregation.go\<close>\<close>

text \<open>
  The development embeds the graph-walking interpreter of the workflow aggregation:
  \<^verbatim>\<open>start\<close>, \<^verbatim>\<open>destroy\<close>, \<^verbatim>\<open>complete\<close>, \<^verbatim>\<open>executeTask\<close>, \<^verbatim>\<open>handleTaskError\<close> and
  \<^verbatim>\<open>handle\<close> with its polling loop. Go pointers to node records become addresses into an
  explicit heap, because the aggregation keeps the node it is working on both in
  \<^verbatim>\<open>CurrentNode\<close> and in \<^verbatim>\<open>Nodes\<close> and goes on mutating it afterwards. The collaborators the
  file only calls (persistence gateway, deployment status service, JSON encoder, the
  \<^verbatim>\<open>errors\<close> package, the methods of the node record) are parameters or call logs.
\<close>

subsection \<open>Data\<close>

text \<open>The status constants \<^verbatim>\<open>constants.WorkFlowStatus...\<close> used for workflows and nodes.\<close>

datatype WorkFlowStatus =
    WorkFlowStatusInitializing
  | WorkFlowStatusProcessing
  | WorkFlowStatusFinished
  | WorkFlowStatusError
  | WorkFlowStatusCanceled

text \<open>
  \<^verbatim>\<open>NodeReturnType\<close> is a string type in the source (\<^verbatim>\<open>string(nodeDefine.ReturnType)\<close>) with
  the two named constants the \<^verbatim>\<open>switch\<close> of \<^verbatim>\<open>handle\<close> distinguishes; any other string is a
  third kind of value.
\<close>

datatype NodeReturnType = SyncFuncNode | PollingNode | OtherReturnType string

text \<open>The error codes of the \<^verbatim>\<open>errors\<close> package that this file uses.\<close>

datatype EM_ERROR_CODE =
    TIEM_TASK_CANCELED
  | TIEM_PANIC
  | TIEM_WORKFLOW_NODE_POLLING_TIME_OUT
  | TIEM_TASK_FAILED

text \<open>
  Go \<^verbatim>\<open>error\<close> values: \<^verbatim>\<open>errors.NewError(code, msg)\<close> (and \<^verbatim>\<open>NewErrorf\<close>, whose formatted
  message is the string), \<^verbatim>\<open>errors.Error(code)\<close>, \<^verbatim>\<open>fmt.Errorf(format)\<close> with no further
  argument, and any other error an executor may return, known by its message.
\<close>

datatype error =
    NewError EM_ERROR_CODE string
  | ErrorOfCode EM_ERROR_CODE
  | fmt_Errorf string
  | OtherError string

record WorkFlow =
  Flow_ID :: string
  Flow_TenantId :: string
  Flow_Name :: string
  Flow_BizID :: string
  Flow_BizType :: string
  Flow_Status :: WorkFlowStatus
  Flow_Context :: string

record WorkFlowNode =
  Node_ID :: string
  Node_TenantId :: string
  Node_Status :: WorkFlowStatus
  Node_Name :: string
  Node_BizID :: string
  Node_ParentID :: string
  Node_ReturnType :: NodeReturnType
  Node_OperationID :: string
  Node_Result :: string

type_synonym FlowData = "string \<rightharpoonup> string"

text \<open>
  An executor receives the node record (by pointer) and the flow context (by pointer). It
  either returns an error or \<^verbatim>\<open>nil\<close>, or panics. A panic is known by what \<^verbatim>\<open>recover()\<close>
  gives for it: \<open>Some\<close> of the \<^verbatim>\<open>%v\<close> text of a value that is not \<^verbatim>\<open>nil\<close>, or \<open>None\<close> for
  \<^verbatim>\<open>nil\<close>, which is what \<^verbatim>\<open>recover()\<close> returns after \<^verbatim>\<open>panic(nil)\<close> (Go before 1.21; from
  1.21 on \<^verbatim>\<open>panic(nil)\<close> is a panic with a runtime error as its value). In every case the
  node and the context data are left as the executor changed them.
\<close>

datatype ExecOutcome = Returned "error option" | Panicked "string option"

record ExecResult =
  Exec_Outcome :: ExecOutcome
  Exec_Node :: WorkFlowNode
  Exec_Data :: FlowData

record NodeDefine =
  Name :: string
  SuccessEvent :: string
  FailEvent :: string
  ReturnType :: NodeReturnType
  Executor :: "WorkFlowNode \<Rightarrow> FlowData \<Rightarrow> ExecResult"

text \<open>
  \<^verbatim>\<open>TaskNodes\<close> is a Go \<^verbatim>\<open>map[string]*NodeDefine\<close>: looking up a name that is no key gives
  \<^verbatim>\<open>nil\<close>, here \<open>None\<close>.
\<close>

record WorkFlowDefine =
  FlowName :: string
  TaskNodes :: "string \<rightharpoonup> NodeDefine"

text \<open>The reply of \<^verbatim>\<open>deployment.M.GetStatus\<close>: a call error (its message) or an operation.\<close>

datatype deployment_Status = deployment_Running | deployment_Finished | deployment_Error

record Operation =
  Op_Status :: deployment_Status
  Op_Result :: string
  Op_ErrorStr :: string

type_synonym addr = nat

text \<open>
  The aggregation struct. \<^verbatim>\<open>Flow\<close> is a pointer owned by this aggregation alone, so the
  record holds the workflow itself; \<^verbatim>\<open>CurrentNode\<close> and \<^verbatim>\<open>Nodes\<close> hold addresses of node
  records; \<open>FlowData\<close> is the map inside \<^verbatim>\<open>Context\<close>.
\<close>

record WorkFlowAggregation =
  Flow :: WorkFlow
  Define :: WorkFlowDefine
  CurrentNode :: "addr option"
  Nodes :: "addr list"
  FlowData :: FlowData
  FlowError :: "error option"

text \<open>
  The running system: the aggregation, the heap of node records with the next unused
  address, and what has been asked of the outside so far: the arguments of the gateway's
  \<^verbatim>\<open>CreateWorkFlowNode\<close> and \<^verbatim>\<open>UpdateWorkFlowDetail\<close> calls, the operation ids given to
  \<^verbatim>\<open>GetStatus\<close>, the names of the nodes whose executor was invoked, the success and fail
  event names looked up in \<^verbatim>\<open>TaskNodes\<close>, and the number of ticks taken from a polling
  ticker.
\<close>

record world = WorkFlowAggregation +
  Heap :: "addr \<Rightarrow> WorkFlowNode"
  NextAddr :: addr
  CreateWorkFlowNodeCalls :: "WorkFlowNode list"
  UpdateWorkFlowDetailCalls :: "(WorkFlow \<times> WorkFlowNode list) list"
  GetStatusCalls :: "string list"
  ExecutorCalls :: "string list"
  EventLookups :: "string list"
  Ticks :: nat

text \<open>
  What the file takes from elsewhere: the constant \<^verbatim>\<open>maxPollingSequence\<close> (compared with an
  \<^verbatim>\<open>int32\<close> counter), the status service (its reply may depend on how many queries came
  before), \<^verbatim>\<open>json.Marshal\<close> on the context data (\<open>None\<close> when it fails), the text
  \<^verbatim>\<open>e.Error()\<close> of an error, and the result string that \<^verbatim>\<open>Success\<close> leaves on a node, given
  the old result and the payloads (a \<^verbatim>\<open>nil\<close> payload is \<open>None\<close>).
\<close>

record env =
  maxPollingSequence :: "32 word"
  GetStatus :: "nat \<Rightarrow> string \<Rightarrow> string + Operation"
  json_Marshal :: "FlowData \<Rightarrow> string option"
  Error_text :: "error \<Rightarrow> string"
  Success_text :: "string \<Rightarrow> string option list \<Rightarrow> string"

subsection \<open>The node record's methods\<close>

text \<open>
  Modelled from the spec: the method \<^verbatim>\<open>Processing\<close> of \<^verbatim>\<open>workflow.WorkFlowNode\<close> is not
  among the sources. A node that the aggregation begins to execute goes to status
  \<open>Processing\<close>.
\<close>

definition Processing :: "WorkFlowNode \<Rightarrow> WorkFlowNode" where
  "Processing node = node\<lparr>Node_Status := WorkFlowStatusProcessing\<rparr>"

text \<open>
  Modelled from the spec: the method \<^verbatim>\<open>Success\<close> of \<^verbatim>\<open>workflow.WorkFlowNode\<close> is not among
  the sources. The node goes to status \<open>Finished\<close> and carries the payloads it was given
  in its result; how the result string is put together is left to \<open>Success_text\<close>.
\<close>

definition Success :: "env \<Rightarrow> string option list \<Rightarrow> WorkFlowNode \<Rightarrow> WorkFlowNode" where
  "Success E result node =
     node\<lparr>Node_Status := WorkFlowStatusFinished,
          Node_Result := Success_text E (Node_Result node) result\<rparr>"

text \<open>
  Modelled from the spec: the method \<^verbatim>\<open>Fail\<close> of \<^verbatim>\<open>workflow.WorkFlowNode\<close> is not among the
  sources. The node goes to status \<open>Error\<close> and its result is the error's message.
\<close>

definition Fail :: "env \<Rightarrow> error \<Rightarrow> WorkFlowNode \<Rightarrow> WorkFlowNode" where
  "Fail E e node =
     node\<lparr>Node_Status := WorkFlowStatusError, Node_Result := Error_text E e\<rparr>"

subsection \<open>Heap and gateway\<close>

definition update_node :: "addr \<Rightarrow> (WorkFlowNode \<Rightarrow> WorkFlowNode) \<Rightarrow> world \<Rightarrow> world" where
  "update_node a f w = w\<lparr>Heap := (Heap w)(a := f (Heap w a))\<rparr>"

definition set_status :: "WorkFlowStatus \<Rightarrow> world \<Rightarrow> world" where
  "set_status st w = w\<lparr>Flow := (Flow w)\<lparr>Flow_Status := st\<rparr>\<rparr>"

text \<open>
  \<^verbatim>\<open>UpdateWorkFlowDetail(flow.Context, flow.Flow, flow.Nodes)\<close>: the gateway is handed the
  workflow and the node records as they are now. Its error is only logged.
\<close>

definition UpdateWorkFlowDetail :: "world \<Rightarrow> world" where
  "UpdateWorkFlowDetail w =
     w\<lparr>UpdateWorkFlowDetailCalls :=
          UpdateWorkFlowDetailCalls w @ [(Flow w, map (Heap w) (Nodes w))]\<rparr>"

text \<open>\<^verbatim>\<open>CreateWorkFlowNode(flow.Context, node)\<close>, its error only logged as well.\<close>

definition CreateWorkFlowNode :: "addr \<Rightarrow> world \<Rightarrow> world" where
  "CreateWorkFlowNode a w =
     w\<lparr>CreateWorkFlowNodeCalls := CreateWorkFlowNodeCalls w @ [Heap w a]\<rparr>"

subsection \<open>The aggregation's operations\<close>

text \<open>
  \<^verbatim>\<open>complete\<close> has a value receiver, but \<^verbatim>\<open>Flow\<close> is a pointer, so the copy writes the
  status of the same workflow.
\<close>

definition complete :: "bool \<Rightarrow> world \<Rightarrow> world" where
  "complete success w =
     (if success then set_status WorkFlowStatusFinished w
      else set_status WorkFlowStatusError w)"

definition destroy :: "env \<Rightarrow> string \<Rightarrow> world \<Rightarrow> world" where
  "destroy E reason w =
     (let w1 = set_status WorkFlowStatusCanceled w;
          w2 = (case CurrentNode w1 of
                  None \<Rightarrow> w1
                | Some a \<Rightarrow> update_node a (Fail E (NewError TIEM_TASK_CANCELED reason)) w1)
      in UpdateWorkFlowDetail w2)"

text \<open>
  \<^verbatim>\<open>executeTask\<close>: the node becomes current, is appended to \<^verbatim>\<open>Nodes\<close> and set to
  \<open>Processing\<close>; the context data are serialised into the workflow (the empty string when
  \<^verbatim>\<open>json.Marshal\<close> fails) and the detail is written; then the executor runs. A returned
  error fails the node and is returned. A panic ends in the deferred function: under
  \<^verbatim>\<open>if r := recover(); r != nil\<close> it builds \<^verbatim>\<open>NewErrorf(TIEM_PANIC, "%v", r)\<close>, fails the
  node with it and returns it; when \<^verbatim>\<open>recover()\<close> gives \<^verbatim>\<open>nil\<close> the branch is skipped, the
  named result \<^verbatim>\<open>execErr\<close> is still \<^verbatim>\<open>nil\<close> and the node is not failed.
\<close>

definition executeTask :: "env \<Rightarrow> addr \<Rightarrow> NodeDefine \<Rightarrow> world \<Rightarrow> error option \<times> world" where
  "executeTask E a nodeDefine w =
     (let w1 = w\<lparr>CurrentNode := Some a, Nodes := Nodes w @ [a]\<rparr>;
          w2 = update_node a Processing w1;
          w3 = w2\<lparr>Flow := (Flow w2)\<lparr>Flow_Context :=
                  (case json_Marshal E (FlowData w2) of None \<Rightarrow> [] | Some data \<Rightarrow> data)\<rparr>\<rparr>;
          w4 = UpdateWorkFlowDetail w3;
          r = Executor nodeDefine (Heap w4 a) (FlowData w4);
          w5 = w4\<lparr>FlowData := Exec_Data r,
                  Heap := (Heap w4)(a := Exec_Node r),
                  ExecutorCalls := ExecutorCalls w4 @ [Name nodeDefine]\<rparr>
      in case Exec_Outcome r of
           Panicked None \<Rightarrow> (None, w5)
         | Panicked (Some v) \<Rightarrow>
             (let execErr = NewError TIEM_PANIC v
              in (Some execErr, update_node a (Fail E execErr) w5))
         | Returned None \<Rightarrow> (None, w5)
         | Returned (Some err) \<Rightarrow> (Some err, update_node a (Fail E err) w5))"

text \<open>
  \<^verbatim>\<open>flow.Define.TaskNodes[event]\<close>: the value is \<open>TaskNodes (Define w) event\<close>; the name
  asked for is written down.
\<close>

definition note_lookup :: "string \<Rightarrow> world \<Rightarrow> world" where
  "note_lookup event w = w\<lparr>EventLookups := EventLookups w @ [event]\<rparr>"

text \<open>The node record that \<^verbatim>\<open>handle\<close> builds for a definition.\<close>

definition new_node :: "world \<Rightarrow> NodeDefine \<Rightarrow> WorkFlowNode" where
  "new_node w nodeDefine =
     \<lparr>Node_ID = [],
      Node_TenantId = Flow_TenantId (Flow w),
      Node_Status = WorkFlowStatusInitializing,
      Node_Name = Name nodeDefine,
      Node_BizID = Flow_BizID (Flow w),
      Node_ParentID = Flow_ID (Flow w),
      Node_ReturnType = ReturnType nodeDefine,
      Node_OperationID = [],
      Node_Result = []\<rparr>"

definition alloc_node :: "NodeDefine \<Rightarrow> world \<Rightarrow> world" where
  "alloc_node nodeDefine w =
     w\<lparr>Heap := (Heap w)(NextAddr w := new_node w nodeDefine), NextAddr := Suc (NextAddr w)\<rparr>"

text \<open>
  \<^verbatim>\<open>handle\<close>, \<^verbatim>\<open>handleTaskError\<close> and the polling loop call one another, and neither the
  recursion through the definition's events nor the loop need end, so all three take
  fuel: one unit for every node handled and every tick of the loop; \<open>None\<close> means the
  fuel ran out. \<^verbatim>\<open>handle(nil)\<close> needs none.

  \<open>polling\<close> is the body of \<^verbatim>\<open>for range ticker.C\<close> with the counter \<^verbatim>\<open>sequence\<close>, an
  \<^verbatim>\<open>int32\<close> that \<^verbatim>\<open>sequence++\<close> wraps around and \<^verbatim>\<open>sequence > maxPollingSequence\<close> compares as
  signed.
\<close>

fun handle :: "nat \<Rightarrow> env \<Rightarrow> NodeDefine option \<Rightarrow> world \<Rightarrow> (bool \<times> world) option"
and handleTaskError :: "nat \<Rightarrow> env \<Rightarrow> addr \<Rightarrow> NodeDefine \<Rightarrow> world \<Rightarrow> world option"
and polling :: "nat \<Rightarrow> env \<Rightarrow> addr \<Rightarrow> NodeDefine \<Rightarrow> 32 word \<Rightarrow> world \<Rightarrow> (bool \<times> world) option"
where
  "handle fuel E None w = Some (True, set_status WorkFlowStatusFinished w)"
| "handle 0 E (Some nodeDefine) w = None"
| "handle (Suc fuel) E (Some nodeDefine) w =
     (let a = NextAddr w;
          w1 = CreateWorkFlowNode a (alloc_node nodeDefine w);
          (handleError, w2) = executeTask E a nodeDefine w1
      in if handleError \<noteq> None then
           (case handleTaskError fuel E a nodeDefine w2 of
              None \<Rightarrow> None
            | Some w3 \<Rightarrow> Some (False, w3))
         else
           (case ReturnType nodeDefine of
              SyncFuncNode \<Rightarrow>
                handle fuel E (TaskNodes (Define w2) (SuccessEvent nodeDefine))
                  (note_lookup (SuccessEvent nodeDefine) (update_node a (Success E []) w2))
            | PollingNode \<Rightarrow>
                if Node_Status (Heap w2 a) = WorkFlowStatusFinished then
                  handle fuel E (TaskNodes (Define w2) (SuccessEvent nodeDefine))
                    (note_lookup (SuccessEvent nodeDefine) w2)
                else polling fuel E a nodeDefine 0 w2
            | OtherReturnType t \<Rightarrow> Some (True, w2)))"
| "handleTaskError fuel E a nodeDefine w =
     (let w1 = w\<lparr>FlowError := Some (fmt_Errorf (Node_Result (Heap w a)))\<rparr>
      in if FailEvent nodeDefine \<noteq> [] then
           (case handle fuel E (TaskNodes (Define w1) (FailEvent nodeDefine))
                   (note_lookup (FailEvent nodeDefine) w1) of
              None \<Rightarrow> None
            | Some (r, w2) \<Rightarrow> Some w2)
         else Some w1)"
| "polling 0 E a nodeDefine sequence w = None"
| "polling (Suc fuel) E a nodeDefine sequence w =
     (let w1 = w\<lparr>Ticks := Suc (Ticks w)\<rparr>;
          sequence1 = sequence + 1
      in if maxPollingSequence E <s sequence1 then
           (case handleTaskError fuel E a nodeDefine
                   (update_node a (Fail E (ErrorOfCode TIEM_WORKFLOW_NODE_POLLING_TIME_OUT)) w1) of
              None \<Rightarrow> None
            | Some w3 \<Rightarrow> Some (False, w3))
         else
           (let opid = Node_OperationID (Heap w1 a);
                reply = GetStatus E (length (GetStatusCalls w1)) opid;
                w2 = w1\<lparr>GetStatusCalls := GetStatusCalls w1 @ [opid]\<rparr>
            in case reply of
                 Inl err \<Rightarrow>
                   (case handleTaskError fuel E a nodeDefine
                           (update_node a (Fail E (NewError TIEM_TASK_FAILED err)) w2) of
                      None \<Rightarrow> None
                    | Some w3 \<Rightarrow> Some (False, w3))
               | Inr op \<Rightarrow>
                   if Op_Status op = deployment_Error then
                     (case handleTaskError fuel E a nodeDefine
                             (update_node a (Fail E (NewError TIEM_TASK_FAILED (Op_ErrorStr op))) w2) of
                        None \<Rightarrow> None
                      | Some w3 \<Rightarrow> Some (False, w3))
                   else if Op_Status op = deployment_Finished then
                     handle fuel E (TaskNodes (Define w2) (SuccessEvent nodeDefine))
                       (note_lookup (SuccessEvent nodeDefine)
                          (update_node a
                             (if Op_Result op \<noteq> [] then Success E [Some (Op_Result op)]
                              else Success E [None]) w2))
                   else polling fuel E a nodeDefine sequence1 w2))"

text \<open>
  \<^verbatim>\<open>start\<close>: the workflow is set to \<open>Processing\<close>, the node named \<^verbatim>\<open>"start"\<close> is handled,
  \<^verbatim>\<open>complete\<close> is applied to the result and the detail is written.
\<close>

definition start :: "nat \<Rightarrow> env \<Rightarrow> world \<Rightarrow> world option" where
  "start fuel E w =
     (let w1 = set_status WorkFlowStatusProcessing w
      in case handle fuel E (TaskNodes (Define w1) ''start'') w1 of
           None \<Rightarrow> None
         | Some (result, w2) \<Rightarrow> Some (UpdateWorkFlowDetail (complete result w2)))"

subsection \<open>Running one node\<close>

text \<open>
  When \<^verbatim>\<open>handle\<close> takes up a definition in world \<open>w\<close>, the executor is called with the
  new node record, set to \<open>Processing\<close>, and with the context data of \<open>w\<close>:
  \<open>executor_run\<close> is what it gives back, and \<open>after_executor\<close> is the world in which
  \<^verbatim>\<open>executeTask\<close> returns. The new node's address is \<open>NextAddr w\<close>.
\<close>

definition executor_run :: "world \<Rightarrow> NodeDefine \<Rightarrow> ExecResult" where
  "executor_run w nodeDefine =
     Executor nodeDefine (Processing (new_node w nodeDefine)) (FlowData w)"

definition after_executor :: "env \<Rightarrow> NodeDefine \<Rightarrow> world \<Rightarrow> world" where
  "after_executor E nodeDefine w =
     snd (executeTask E (NextAddr w) nodeDefine
            (CreateWorkFlowNode (NextAddr w) (alloc_node nodeDefine w)))"

text \<open>The error that \<^verbatim>\<open>executeTask\<close> returns for each way the executor can end.\<close>

fun execErr :: "ExecOutcome \<Rightarrow> error option" where
  "execErr (Returned err) = err"
| "execErr (Panicked None) = None"
| "execErr (Panicked (Some v)) = Some (NewError TIEM_PANIC v)"

subsection \<open>Building a definition\<close>

text \<open>
  Modelled from the spec: the check made when a \<^verbatim>\<open>WorkFlowDefine\<close> is built is not among the
  sources. A success or fail event, if not empty, must name a key present in the
  definition's \<^verbatim>\<open>taskNodes\<close>.
\<close>

definition resolves :: "(string \<times> NodeDefine) list \<Rightarrow> string \<Rightarrow> bool" where
  "resolves nodes event = (event = [] \<or> map_of nodes event \<noteq> None)"

text \<open>
  Modelled from the spec: the code that builds a \<^verbatim>\<open>WorkFlowDefine\<close> is not among the
  sources. Building a definition from its named nodes rejects (\<open>None\<close>) any success or
  fail event that names a node which does not exist.
\<close>

definition buildWorkFlowDefine :: "string \<Rightarrow> (string \<times> NodeDefine) list \<Rightarrow> WorkFlowDefine option" where
  "buildWorkFlowDefine name nodes =
     (if list_all (\<lambda>(key, nodeDefine).
            resolves nodes (SuccessEvent nodeDefine) \<and> resolves nodes (FailEvent nodeDefine)) nodes
      then Some \<lparr>FlowName = name, TaskNodes = map_of nodes\<rparr>
      else None)"

subsection \<open>Event names that resolve\<close>

text \<open>
  The invariant of the data model: every success or fail event of every node of a
  definition is empty or names a key of \<^verbatim>\<open>TaskNodes\<close>. \<open>lookups_resolve d base w\<close> says
  that the world runs definition \<open>d\<close> and that every event name looked up since the
  lookups \<open>base\<close> is empty or a key; \<open>of_define\<close> says that a node definition, if there is
  one, is a value of \<^verbatim>\<open>TaskNodes\<close>. The three \<open>keeps\<close> predicates state that a run of
  \<^verbatim>\<open>handle\<close>, \<^verbatim>\<open>handleTaskError\<close> or the polling loop that returns preserves
  \<open>lookups_resolve\<close>.
\<close>

definition events_resolve :: "WorkFlowDefine \<Rightarrow> bool" where
  "events_resolve d =
     (\<forall>key nodeDefine. TaskNodes d key = Some nodeDefine \<longrightarrow>
        (SuccessEvent nodeDefine = [] \<or> TaskNodes d (SuccessEvent nodeDefine) \<noteq> None)
      \<and> (FailEvent nodeDefine = [] \<or> TaskNodes d (FailEvent nodeDefine) \<noteq> None))"

definition lookups_resolve :: "WorkFlowDefine \<Rightarrow> string list \<Rightarrow> world \<Rightarrow> bool" where
  "lookups_resolve d base w =
     (Define w = d \<and> length base \<le> length (EventLookups w)
      \<and> take (length base) (EventLookups w) = base
      \<and> list_all (\<lambda>event. event = [] \<or> TaskNodes d event \<noteq> None)
            (drop (length base) (EventLookups w)))"

definition of_define :: "WorkFlowDefine \<Rightarrow> NodeDefine option \<Rightarrow> bool" where
  "of_define d x = (case x of None \<Rightarrow> True | Some nodeDefine \<Rightarrow> (\<exists>key. TaskNodes d key = Some nodeDefine))"

definition handle_keeps :: "WorkFlowDefine \<Rightarrow> env \<Rightarrow> nat \<Rightarrow> bool" where
  "handle_keeps d E fuel =
     (\<forall>x w r w' n. of_define d x \<longrightarrow> lookups_resolve d n w \<longrightarrow>
        handle fuel E x w = Some (r, w') \<longrightarrow> lookups_resolve d n w')"

definition handleTaskError_keeps :: "WorkFlowDefine \<Rightarrow> env \<Rightarrow> nat \<Rightarrow> bool" where
  "handleTaskError_keeps d E fuel =
     (\<forall>a nodeDefine w w' n. of_define d (Some nodeDefine) \<longrightarrow> lookups_resolve d n w \<longrightarrow>
        handleTaskError fuel E a nodeDefine w = Some w' \<longrightarrow> lookups_resolve d n w')"

definition polling_keeps :: "WorkFlowDefine \<Rightarrow> env \<Rightarrow> nat \<Rightarrow> bool" where
  "polling_keeps d E fuel =
     (\<forall>a nodeDefine sequence w r w' n. of_define d (Some nodeDefine) \<longrightarrow> lookups_resolve d n w \<longrightarrow>
        polling fuel E a nodeDefine sequence w = Some (r, w') \<longrightarrow> lookups_resolve d n w')"

subsection \<open>Example runs\<close>

text \<open>
  Concrete collaborators, executors, definitions and worlds, on which the properties
  below are exercised. \<open>E_running\<close> has a maximum of three polling ticks and a status
  service that always reports a running operation; with \<open>E_finishing\<close> the second
  query finds the operation finished.
\<close>

definition error_message :: "error \<Rightarrow> string" where
  "error_message e =
     (case e of
        NewError code msg \<Rightarrow> msg
      | ErrorOfCode code \<Rightarrow> ''error''
      | fmt_Errorf msg \<Rightarrow> msg
      | OtherError msg \<Rightarrow> msg)"

definition running_operation :: Operation where
  "running_operation = \<lparr>Op_Status = deployment_Running, Op_Result = [], Op_ErrorStr = []\<rparr>"

definition finished_operation :: Operation where
  "finished_operation = \<lparr>Op_Status = deployment_Finished, Op_Result = ''done'', Op_ErrorStr = []\<rparr>"

definition E_running :: env where
  "E_running =
     \<lparr>maxPollingSequence = 3,
      GetStatus = (\<lambda>q opid. Inr running_operation),
      json_Marshal = (\<lambda>d. Some ''{}''),
      Error_text = error_message,
      Success_text = (\<lambda>old payloads. concat (map (case_option [] id) payloads))\<rparr>"

definition E_finishing :: env where
  "E_finishing =
     E_running\<lparr>GetStatus :=
       (\<lambda>q opid. if q = 1 then Inr finished_operation else Inr running_operation)\<rparr>"

definition ok_executor :: "WorkFlowNode \<Rightarrow> FlowData \<Rightarrow> ExecResult" where
  "ok_executor node d = \<lparr>Exec_Outcome = Returned None, Exec_Node = node, Exec_Data = d\<rparr>"

definition failing_executor :: "WorkFlowNode \<Rightarrow> FlowData \<Rightarrow> ExecResult" where
  "failing_executor node d =
     \<lparr>Exec_Outcome = Returned (Some (OtherError ''boom'')), Exec_Node = node, Exec_Data = d\<rparr>"



definition finishing_executor :: "WorkFlowNode \<Rightarrow> FlowData \<Rightarrow> ExecResult" where
  "finishing_executor node d =
     \<lparr>Exec_Outcome = Returned None,
      Exec_Node = node\<lparr>Node_Status := WorkFlowStatusFinished\<rparr>,
      Exec_Data = d\<rparr>"

definition node_define ::
  "string \<Rightarrow> NodeReturnType \<Rightarrow> (WorkFlowNode \<Rightarrow> FlowData \<Rightarrow> ExecResult) \<Rightarrow> string \<Rightarrow> string \<Rightarrow> NodeDefine" where
  "node_define name t exec success fail =
     \<lparr>Name = name, SuccessEvent = success, FailEvent = fail, ReturnType = t, Executor = exec\<rparr>"

definition start_failing :: NodeDefine where
  "start_failing = node_define ''start'' SyncFuncNode failing_executor ''done'' ''cleanup''"

definition cleanup_ok :: NodeDefine where
  "cleanup_ok = node_define ''cleanup'' SyncFuncNode ok_executor [] []"

definition done_ok :: NodeDefine where
  "done_ok = node_define ''done'' SyncFuncNode ok_executor [] []"

definition start_ok :: NodeDefine where
  "start_ok = node_define ''start'' SyncFuncNode ok_executor ''create_success'' []"

definition create_success :: NodeDefine where
  "create_success = node_define ''create_success'' SyncFuncNode ok_executor [] []"

definition poll_node :: NodeDefine where
  "poll_node = node_define ''poll'' PollingNode ok_executor [] []"

definition failing_alone :: NodeDefine where
  "failing_alone = node_define ''start'' SyncFuncNode failing_executor ''done'' []"



definition cleanup_async :: NodeDefine where
  "cleanup_async = node_define ''cleanup'' (OtherReturnType ''AsyncNode'') ok_executor [] []"

definition async_ok :: NodeDefine where
  "async_ok = node_define ''start'' (OtherReturnType ''AsyncNode'') ok_executor ''done'' []"

definition async_finishing :: NodeDefine where
  "async_finishing = node_define ''start'' (OtherReturnType ''AsyncNode'') finishing_executor ''done'' []"

definition start_dangling :: NodeDefine where
  "start_dangling = node_define ''start'' SyncFuncNode ok_executor ''missing'' []"

definition fail_then_cleanup :: "(string \<times> NodeDefine) list" where
  "fail_then_cleanup = [(''start'', start_failing), (''cleanup'', cleanup_ok), (''done'', done_ok)]"

definition fail_then_async_cleanup :: "(string \<times> NodeDefine) list" where
  "fail_then_async_cleanup = [(''start'', start_failing), (''cleanup'', cleanup_async)]"

definition two_steps :: "(string \<times> NodeDefine) list" where
  "two_steps = [(''start'', start_ok), (''create_success'', create_success)]"

definition blank_node :: WorkFlowNode where
  "blank_node =
     \<lparr>Node_ID = [], Node_TenantId = [], Node_Status = WorkFlowStatusInitializing,
      Node_Name = [], Node_BizID = [], Node_ParentID = [], Node_ReturnType = SyncFuncNode,
      Node_OperationID = [], Node_Result = []\<rparr>"

definition new_world :: "(string \<times> NodeDefine) list \<Rightarrow> world" where
  "new_world nodes =
     \<lparr>Flow = \<lparr>Flow_ID = ''f1'', Flow_TenantId = ''t1'', Flow_Name = ''flow'',
               Flow_BizID = ''b1'', Flow_BizType = ''cluster'',
               Flow_Status = WorkFlowStatusInitializing, Flow_Context = []\<rparr>,
      Define = \<lparr>FlowName = ''flow'', TaskNodes = map_of nodes\<rparr>,
      CurrentNode = None, Nodes = [], FlowData = Map.empty, FlowError = None,
      Heap = (\<lambda>a. blank_node), NextAddr = 0,
      CreateWorkFlowNodeCalls = [], UpdateWorkFlowDetailCalls = [],
      GetStatusCalls = [], ExecutorCalls = [], EventLookups = [], Ticks = 0\<rparr>"

definition working_world :: world where
  "working_world = (new_world two_steps)\<lparr>CurrentNode := Some 0, Nodes := [0], NextAddr := 1\<rparr>"

section \<open>Lemmas on one step of \<^verbatim>\<open>handle\<close>\<close>

text \<open>
  The recursive equations are applied by name, one step at a time, and not by the
  simplifier on its own.
\<close>

declare handle.simps(3) [simp del] handleTaskError.simps [simp del] polling.simps(2) [simp del]

lemma executeTask_fresh:
  "executeTask E (NextAddr w) nd (CreateWorkFlowNode (NextAddr w) (alloc_node nd w)) =
     (execErr (Exec_Outcome (executor_run w nd)), after_executor E nd w)"
  by (simp add: after_executor_def executeTask_def executor_run_def Let_def CreateWorkFlowNode_def
      alloc_node_def update_node_def UpdateWorkFlowDetail_def new_node_def
      split: ExecOutcome.splits option.splits)

lemma after_executor_fields:
  "Define (after_executor E nd w) = Define w"
  "Nodes (after_executor E nd w) = Nodes w @ [NextAddr w]"
  "CurrentNode (after_executor E nd w) = Some (NextAddr w)"
  "NextAddr (after_executor E nd w) = Suc (NextAddr w)"
  "FlowData (after_executor E nd w) = Exec_Data (executor_run w nd)"
  "FlowError (after_executor E nd w) = FlowError w"
  "ExecutorCalls (after_executor E nd w) = ExecutorCalls w @ [Name nd]"
  "CreateWorkFlowNodeCalls (after_executor E nd w) = CreateWorkFlowNodeCalls w @ [new_node w nd]"
  "GetStatusCalls (after_executor E nd w) = GetStatusCalls w"
  "EventLookups (after_executor E nd w) = EventLookups w"
  "Ticks (after_executor E nd w) = Ticks w"
  "Flow_Status (Flow (after_executor E nd w)) = Flow_Status (Flow w)"
  "Flow_ID (Flow (after_executor E nd w)) = Flow_ID (Flow w)"
  "Flow_TenantId (Flow (after_executor E nd w)) = Flow_TenantId (Flow w)"
  "Flow_BizID (Flow (after_executor E nd w)) = Flow_BizID (Flow w)"
  by (simp_all add: after_executor_def executeTask_def executor_run_def Let_def CreateWorkFlowNode_def
      alloc_node_def update_node_def UpdateWorkFlowDetail_def new_node_def
      split: ExecOutcome.splits option.splits)

lemma after_executor_Heap:
  "Heap (after_executor E nd w) =
     (Heap w)(NextAddr w :=
        (case execErr (Exec_Outcome (executor_run w nd)) of
           None \<Rightarrow> Exec_Node (executor_run w nd)
         | Some err \<Rightarrow> Fail E err (Exec_Node (executor_run w nd))))"
  by (simp add: after_executor_def executeTask_def executor_run_def Let_def CreateWorkFlowNode_def
      alloc_node_def update_node_def UpdateWorkFlowDetail_def new_node_def
      split: ExecOutcome.splits option.splits)

lemma handle_step:
  "handle (Suc fuel) E (Some nd) w =
     (let a = NextAddr w; w2 = after_executor E nd w in
      if execErr (Exec_Outcome (executor_run w nd)) \<noteq> None then
        map_option (Pair False) (handleTaskError fuel E a nd w2)
      else
        (case ReturnType nd of
            SyncFuncNode \<Rightarrow>
              handle fuel E (TaskNodes (Define w2) (SuccessEvent nd))
                (note_lookup (SuccessEvent nd) (update_node a (Success E []) w2))
          | PollingNode \<Rightarrow>
              if Node_Status (Heap w2 a) = WorkFlowStatusFinished then
                handle fuel E (TaskNodes (Define w2) (SuccessEvent nd))
                  (note_lookup (SuccessEvent nd) w2)
              else polling fuel E a nd 0 w2
          | OtherReturnType t \<Rightarrow> Some (True, w2)))"
  apply (simp only: handle.simps Let_def executeTask_fresh)
  apply (simp split: option.splits add: map_option_case)
  done

lemma handle_sync_ok:
  assumes "ReturnType nd = SyncFuncNode" "Exec_Outcome (executor_run w nd) = Returned None"
  shows "handle (Suc fuel) E (Some nd) w =
         handle fuel E (TaskNodes (Define w) (SuccessEvent nd))
           (note_lookup (SuccessEvent nd)
              (update_node (NextAddr w) (Success E []) (after_executor E nd w)))"
  using assms by (simp add: handle_step Let_def after_executor_fields)

lemma handle_executor_error:
  assumes "Exec_Outcome (executor_run w nd) = Returned (Some err)"
  shows "handle (Suc fuel) E (Some nd) w =
         map_option (Pair False) (handleTaskError fuel E (NextAddr w) nd (after_executor E nd w))"
  using assms by (simp add: handle_step Let_def)

lemma handleTaskError_after_error:
  assumes "Exec_Outcome (executor_run w nd) = Returned (Some err)"
  shows "handleTaskError fuel E (NextAddr w) nd (after_executor E nd w) =
           (if FailEvent nd \<noteq> [] then
              map_option snd (handle fuel E (TaskNodes (Define w) (FailEvent nd))
                 (note_lookup (FailEvent nd)
                    ((after_executor E nd w)\<lparr>FlowError := Some (fmt_Errorf (Error_text E err))\<rparr>)))
            else Some ((after_executor E nd w)\<lparr>FlowError := Some (fmt_Errorf (Error_text E err))\<rparr>))"
proof -
  have node: "Node_Result (Heap (after_executor E nd w) (NextAddr w)) = Error_text E err"
    using assms by (simp add: after_executor_Heap Fail_def)
  show ?thesis
    by (simp add: handleTaskError.simps Let_def node after_executor_fields map_option_case
        split: option.splits prod.splits)
qed

section \<open>Lemmas on \<^verbatim>\<open>start\<close> with a failing first node\<close>

lemma start_fail_path_sync_cleanup:
  assumes s: "TaskNodes (Define w) ''start'' = Some startDefine"
    and e: "Exec_Outcome (executor_run w startDefine) = Returned (Some err)"
    and f: "FailEvent startDefine \<noteq> []" "TaskNodes (Define w) (FailEvent startDefine) = Some cleanup"
    and c: "Exec_Outcome (Executor cleanup (Processing (new_node w cleanup))
                            (Exec_Data (executor_run w startDefine))) = Returned None"
    and t: "ReturnType cleanup = SyncFuncNode" "TaskNodes (Define w) (SuccessEvent cleanup) = None"
  shows "\<exists>w1 w2.
           handle (Suc (Suc fuel)) E (Some startDefine) (set_status WorkFlowStatusProcessing w) =
             Some (False, w1)
         \<and> Flow_Status (Flow w1) = WorkFlowStatusFinished
         \<and> start (Suc (Suc fuel)) E w = Some w2
         \<and> w2 = UpdateWorkFlowDetail (complete False w1)
         \<and> Flow_Status (Flow w2) = WorkFlowStatusError
         \<and> Nodes w2 = Nodes w @ [NextAddr w, Suc (NextAddr w)]
         \<and> Node_Status (Heap w2 (NextAddr w)) = WorkFlowStatusError
         \<and> Node_Status (Heap w2 (Suc (NextAddr w))) = WorkFlowStatusFinished"
proof -
  define wp where "wp = set_status WorkFlowStatusProcessing w"
  define a where "a = NextAddr w"
  define wa where "wa = after_executor E startDefine wp"
  define wf where "wf = note_lookup (FailEvent startDefine)
                     (wa\<lparr>FlowError := Some (fmt_Errorf (Error_text E err))\<rparr>)"
  define wc where "wc = note_lookup (SuccessEvent cleanup)
                     (update_node (Suc a) (Success E []) (after_executor E cleanup wf))"
  define w1 where "w1 = set_status WorkFlowStatusFinished wc"
  have wp: "Define wp = Define w" "NextAddr wp = a" "Nodes wp = Nodes w"
    by (simp_all add: wp_def set_status_def a_def)
  have r1: "executor_run wp startDefine = executor_run w startDefine"
    by (simp add: executor_run_def new_node_def wp_def set_status_def)
  have e1: "Exec_Outcome (executor_run wp startDefine) = Returned (Some err)"
    using e by (simp add: r1)
  have wf: "Define wf = Define w" "NextAddr wf = Suc a" "Nodes wf = Nodes w @ [a]"
    by (simp_all add: wf_def wa_def note_lookup_def after_executor_fields wp)
  have r2: "executor_run wf cleanup =
            Executor cleanup (Processing (new_node w cleanup)) (Exec_Data (executor_run w startDefine))"
    by (simp add: executor_run_def new_node_def wf_def wa_def note_lookup_def after_executor_fields
        wp_def set_status_def)
  have c1: "Exec_Outcome (executor_run wf cleanup) = Returned None"
    using c by (simp add: r2)
  have hc: "handle (Suc fuel) E (Some cleanup) wf = Some (True, w1)"
    using handle_sync_ok [OF t(1) c1, where fuel = fuel and E = E] t(2)
    by (simp add: wf w1_def wc_def)
  have he: "handleTaskError (Suc fuel) E a startDefine wa = Some w1"
    using handleTaskError_after_error [OF e1, where fuel = "Suc fuel" and E = E] f hc
    by (simp add: wp wa_def [symmetric] wf_def [symmetric])
  have h: "handle (Suc (Suc fuel)) E (Some startDefine) wp = Some (False, w1)"
    using handle_executor_error [OF e1, where fuel = "Suc fuel" and E = E] he
    by (simp add: wp wa_def [symmetric])
  have st: "start (Suc (Suc fuel)) E w = Some (UpdateWorkFlowDetail (complete False w1))"
    using h s by (simp add: start_def Let_def wp_def [symmetric] wp)
  have heap1: "Heap w1 a = Fail E err (Exec_Node (executor_run w startDefine))"
    using e1 c1
    by (simp add: w1_def wc_def wf_def wa_def set_status_def note_lookup_def update_node_def
        after_executor_Heap after_executor_fields wp r1)
  have heap2: "Heap w1 (Suc a) = Success E [] (Exec_Node (executor_run wf cleanup))"
    using c1
    by (simp add: w1_def wc_def set_status_def note_lookup_def update_node_def
        after_executor_Heap wf)
  have nodes: "Nodes w1 = Nodes w @ [a, Suc a]"
    by (simp add: w1_def wc_def set_status_def note_lookup_def update_node_def
        after_executor_fields wf)
  have fin: "Flow_Status (Flow w1) = WorkFlowStatusFinished"
    by (simp add: w1_def set_status_def)
  define w2 where "w2 = UpdateWorkFlowDetail (complete False w1)"
  have w2: "Flow_Status (Flow w2) = WorkFlowStatusError" "Nodes w2 = Nodes w1" "Heap w2 = Heap w1"
    by (simp_all add: w2_def UpdateWorkFlowDetail_def complete_def set_status_def)
  have s1: "Node_Status (Heap w2 a) = WorkFlowStatusError"
    by (simp add: w2 heap1 Fail_def)
  have s2: "Node_Status (Heap w2 (Suc a)) = WorkFlowStatusFinished"
    by (simp add: w2 heap2 Success_def)
  have "handle (Suc (Suc fuel)) E (Some startDefine) (set_status WorkFlowStatusProcessing w) =
             Some (False, w1)
         \<and> Flow_Status (Flow w1) = WorkFlowStatusFinished
         \<and> start (Suc (Suc fuel)) E w = Some w2
         \<and> w2 = UpdateWorkFlowDetail (complete False w1)
         \<and> Flow_Status (Flow w2) = WorkFlowStatusError
         \<and> Nodes w2 = Nodes w @ [NextAddr w, Suc (NextAddr w)]
         \<and> Node_Status (Heap w2 (NextAddr w)) = WorkFlowStatusError
         \<and> Node_Status (Heap w2 (Suc (NextAddr w))) = WorkFlowStatusFinished"
    using h fin st w2 nodes s1 s2 w2_def
    by (simp only: wp_def a_def)
  then show ?thesis by blast
qed

lemma start_error_when_start_fails:
  assumes s: "TaskNodes (Define w) ''start'' = Some startDefine"
    and e: "Exec_Outcome (executor_run w startDefine) = Returned (Some err)"
    and r: "start fuel E w = Some w2"
  shows "Flow_Status (Flow w2) = WorkFlowStatusError"
proof (cases fuel)
  case 0
  with r s show ?thesis
    by (simp add: start_def Let_def set_status_def)
next
  case (Suc n)
  define wp where "wp = set_status WorkFlowStatusProcessing w"
  have d: "Define wp = Define w"
    by (simp add: wp_def set_status_def)
  have "executor_run wp startDefine = executor_run w startDefine"
    by (simp add: executor_run_def new_node_def wp_def set_status_def)
  with e have e1: "Exec_Outcome (executor_run wp startDefine) = Returned (Some err)"
    by simp
  have h: "handle (Suc n) E (Some startDefine) wp =
           map_option (Pair False)
             (handleTaskError n E (NextAddr wp) startDefine (after_executor E startDefine wp))"
    using e1 by (rule handle_executor_error)
  from r Suc s obtain w3 where "w2 = UpdateWorkFlowDetail (complete False w3)"
    by (auto simp: start_def Let_def wp_def [symmetric] d h split: option.splits)
  then show ?thesis
    by (simp add: UpdateWorkFlowDetail_def complete_def set_status_def)
qed

section \<open>Lemmas on the polling loop\<close>

lemma calls_ticks_commute:
  "w\<lparr>Ticks := t, GetStatusCalls := g\<rparr> = (w\<lparr>GetStatusCalls := g, Ticks := t\<rparr> :: world)"
  by (cases w) simp

lemma sint_of_nat_32: "n < 2 ^ 31 \<Longrightarrow> sint (of_nat n :: 32 word) = int n"
  by (simp add: signed_of_nat signed_take_bit_int_eq_self)

lemma polling_step_running:
  assumes "int (Suc j) \<le> sint (maxPollingSequence E)"
    and "GetStatus E (length (GetStatusCalls w)) (Node_OperationID (Heap w a)) = Inr op"
    and "Op_Status op \<noteq> deployment_Error" "Op_Status op \<noteq> deployment_Finished"
  shows "polling (Suc fuel) E a nd (of_nat j) w =
         polling fuel E a nd (of_nat (Suc j))
           (w\<lparr>GetStatusCalls := GetStatusCalls w @ [Node_OperationID (Heap w a)],
              Ticks := Suc (Ticks w)\<rparr>)"
proof -
  have "sint (maxPollingSequence E) < 2 ^ 31"
    using sint_lt [of "maxPollingSequence E"] by simp
  with assms(1) have "int (Suc j) < 2 ^ 31" by linarith
  then have b: "Suc j < 2 ^ 31"
    by (simp only: of_nat_less_numeral_power_cancel_iff)
  have s: "(of_nat j :: 32 word) + 1 = of_nat (Suc j)" by simp
  have n: "\<not> maxPollingSequence E <s of_nat (Suc j)"
    using assms(1) b by (simp add: word_sless_alt sint_of_nat_32 del: of_nat_Suc)
  show ?thesis
    using assms(2-4) n
    by (simp only: polling.simps Let_def s) (simp del: of_nat_Suc add: calls_ticks_commute)
qed

lemma polling_running:
  assumes "int (j + k) \<le> sint (maxPollingSequence E)"
    and "\<forall>i<k. \<exists>op. GetStatus E (length (GetStatusCalls w) + i) (Node_OperationID (Heap w a)) = Inr op
            \<and> Op_Status op \<noteq> deployment_Error \<and> Op_Status op \<noteq> deployment_Finished"
  shows "polling (k + fuel) E a nd (of_nat j) w =
         polling fuel E a nd (of_nat (j + k))
           (w\<lparr>GetStatusCalls := GetStatusCalls w @ replicate k (Node_OperationID (Heap w a)),
              Ticks := Ticks w + k\<rparr>)"
  using assms
proof (induction k arbitrary: j w)
  case 0
  then show ?case by simp
next
  case (Suc k)
  let ?opid = "Node_OperationID (Heap w a)"
  let ?w1 = "w\<lparr>GetStatusCalls := GetStatusCalls w @ [?opid], Ticks := Suc (Ticks w)\<rparr>"
  from Suc.prems(2) obtain op where op:
    "GetStatus E (length (GetStatusCalls w)) ?opid = Inr op"
    "Op_Status op \<noteq> deployment_Error" "Op_Status op \<noteq> deployment_Finished"
    by force
  have le: "int (Suc j) \<le> sint (maxPollingSequence E)"
    using Suc.prems(1) by linarith
  have step: "polling (Suc (k + fuel)) E a nd (of_nat j) w = polling (k + fuel) E a nd (of_nat (Suc j)) ?w1"
    using le op by (rule polling_step_running)
  have rest: "\<forall>i<k. \<exists>op. GetStatus E (length (GetStatusCalls ?w1) + i) (Node_OperationID (Heap ?w1 a)) = Inr op
            \<and> Op_Status op \<noteq> deployment_Error \<and> Op_Status op \<noteq> deployment_Finished"
  proof (intro allI impI)
    fix i assume "i < k"
    then have "Suc i < Suc k" by simp
    from Suc.prems(2) [rule_format, OF this]
    show "\<exists>op. GetStatus E (length (GetStatusCalls ?w1) + i) (Node_OperationID (Heap ?w1 a)) = Inr op
            \<and> Op_Status op \<noteq> deployment_Error \<and> Op_Status op \<noteq> deployment_Finished"
      by simp
  qed
  have le': "int (Suc j + k) \<le> sint (maxPollingSequence E)"
    using Suc.prems(1) by simp
  have "polling (k + fuel) E a nd (of_nat (Suc j)) ?w1 =
        polling fuel E a nd (of_nat (Suc j + k))
           (?w1\<lparr>GetStatusCalls := GetStatusCalls ?w1 @ replicate k (Node_OperationID (Heap ?w1 a)),
              Ticks := Ticks ?w1 + k\<rparr>)"
    using le' rest by (rule Suc.IH)
  with step show ?case
    by (simp add: replicate_app_Cons_same del: of_nat_Suc of_nat_add)
qed

lemma polling_step_timeout:
  assumes "sint (maxPollingSequence E) < int (Suc j)" "Suc j < 2 ^ 31"
  shows "polling (Suc fuel) E a nd (of_nat j) w =
         map_option (Pair False)
           (handleTaskError fuel E a nd
              (update_node a (Fail E (ErrorOfCode TIEM_WORKFLOW_NODE_POLLING_TIME_OUT))
                 (w\<lparr>Ticks := Suc (Ticks w)\<rparr>)))"
proof -
  have s: "(of_nat j :: 32 word) + 1 = of_nat (Suc j)" by simp
  have n: "maxPollingSequence E <s of_nat (Suc j)"
    using assms by (simp add: word_sless_alt sint_of_nat_32 del: of_nat_Suc)
  show ?thesis
    using n
    by (simp only: polling.simps Let_def s) (simp del: of_nat_Suc add: map_option_case)
qed

lemma polling_step_finished:
  assumes "int (Suc j) \<le> sint (maxPollingSequence E)"
    and "GetStatus E (length (GetStatusCalls w)) (Node_OperationID (Heap w a)) = Inr op"
    and "Op_Status op = deployment_Finished"
  shows "polling (Suc fuel) E a nd (of_nat j) w =
         handle fuel E (TaskNodes (Define w) (SuccessEvent nd))
           (note_lookup (SuccessEvent nd)
              (update_node a
                 (if Op_Result op \<noteq> [] then Success E [Some (Op_Result op)] else Success E [None])
                 (w\<lparr>GetStatusCalls := GetStatusCalls w @ [Node_OperationID (Heap w a)],
                    Ticks := Suc (Ticks w)\<rparr>)))"
proof -
  have "sint (maxPollingSequence E) < 2 ^ 31"
    using sint_lt [of "maxPollingSequence E"] by simp
  with assms(1) have "int (Suc j) < 2 ^ 31" by linarith
  then have b: "Suc j < 2 ^ 31"
    by (simp only: of_nat_less_numeral_power_cancel_iff)
  have s: "(of_nat j :: 32 word) + 1 = of_nat (Suc j)" by simp
  have n: "\<not> maxPollingSequence E <s of_nat (Suc j)"
    using assms(1) b by (simp add: word_sless_alt sint_of_nat_32 del: of_nat_Suc)
  show ?thesis
    using assms(2-3) n
    by (simp only: polling.simps Let_def s) (simp del: of_nat_Suc add: calls_ticks_commute)
qed

lemma handleTaskError_no_fail_event:
  "FailEvent nd = [] \<Longrightarrow>
   handleTaskError fuel E a nd w = Some (w\<lparr>FlowError := Some (fmt_Errorf (Node_Result (Heap w a)))\<rparr>)"
  by (simp add: handleTaskError.simps)

section \<open>Lemmas on the event names looked up\<close>

lemma build_events_resolve:
  assumes "buildWorkFlowDefine name nodes = Some d"
  shows "events_resolve d"
proof -
  from assms have all: "list_all (\<lambda>(key, nodeDefine).
            resolves nodes (SuccessEvent nodeDefine) \<and> resolves nodes (FailEvent nodeDefine)) nodes"
    and d: "d = \<lparr>FlowName = name, TaskNodes = map_of nodes\<rparr>"
    by (auto simp: buildWorkFlowDefine_def split: if_splits)
  show ?thesis
    unfolding events_resolve_def
  proof (intro allI impI)
    fix key nodeDefine
    assume "TaskNodes d key = Some nodeDefine"
    then have "(key, nodeDefine) \<in> set nodes"
      by (simp add: d map_of_SomeD)
    with all have "resolves nodes (SuccessEvent nodeDefine) \<and> resolves nodes (FailEvent nodeDefine)"
      by (auto simp: list_all_iff)
    then show "(SuccessEvent nodeDefine = [] \<or> TaskNodes d (SuccessEvent nodeDefine) \<noteq> None)
      \<and> (FailEvent nodeDefine = [] \<or> TaskNodes d (FailEvent nodeDefine) \<noteq> None)"
      by (simp add: resolves_def d)
  qed
qed

lemma lookups_resolve_cong:
  "Define w' = Define w \<Longrightarrow> EventLookups w' = EventLookups w \<Longrightarrow>
   lookups_resolve d n w' = lookups_resolve d n w"
  by (simp add: lookups_resolve_def)

lemma lookups_resolve_note:
  "lookups_resolve d n w \<Longrightarrow> event = [] \<or> TaskNodes d event \<noteq> None \<Longrightarrow>
   lookups_resolve d n (note_lookup event w)"
  by (auto simp: lookups_resolve_def note_lookup_def)

lemma of_define_lookup: "of_define d (TaskNodes d event)"
  by (auto simp: of_define_def split: option.splits)

lemma lookups_resolve_after:
  "lookups_resolve d n (after_executor E nd w) = lookups_resolve d n w"
  by (rule lookups_resolve_cong) (simp_all add: after_executor_fields)

lemma lookups_resolve_update_node:
  "lookups_resolve d n (update_node a f w) = lookups_resolve d n w"
  by (rule lookups_resolve_cong) (simp_all add: update_node_def)

lemma lookups_resolve_set_status:
  "lookups_resolve d n (set_status st w) = lookups_resolve d n w"
  by (rule lookups_resolve_cong) (simp_all add: set_status_def)

lemma success_resolves:
  "events_resolve d \<Longrightarrow> of_define d (Some nd) \<Longrightarrow>
   SuccessEvent nd = [] \<or> TaskNodes d (SuccessEvent nd) \<noteq> None"
  by (auto simp: events_resolve_def of_define_def)

lemma fail_resolves:
  "events_resolve d \<Longrightarrow> of_define d (Some nd) \<Longrightarrow>
   FailEvent nd = [] \<or> TaskNodes d (FailEvent nd) \<noteq> None"
  by (auto simp: events_resolve_def of_define_def)

lemma handleTaskError_keeps_step:
  assumes v: "events_resolve d" and H: "handle_keeps d E fuel"
  shows "handleTaskError_keeps d E fuel"
  unfolding handleTaskError_keeps_def
proof (intro allI impI)
  fix a nd w w' n
  assume nd: "of_define d (Some nd)" and lr: "lookups_resolve d n w"
    and run: "handleTaskError fuel E a nd w = Some w'"
  let ?w1 = "w\<lparr>FlowError := Some (fmt_Errorf (Node_Result (Heap w a)))\<rparr>"
  have lr1: "lookups_resolve d n ?w1"
    using lr by (simp add: lookups_resolve_def)
  have D: "Define w = d" using lr by (simp add: lookups_resolve_def)
  show "lookups_resolve d n w'"
  proof (cases "FailEvent nd = []")
    case True
    with run have "w' = ?w1" by (simp add: handleTaskError.simps Let_def)
    with lr1 show ?thesis by simp
  next
    case False
    with run obtain r where h: "handle fuel E (TaskNodes d (FailEvent nd)) (note_lookup (FailEvent nd) ?w1) = Some (r, w')"
      by (auto simp: handleTaskError.simps Let_def D split: option.splits)
    have "lookups_resolve d n (note_lookup (FailEvent nd) ?w1)"
      using lr1 fail_resolves [OF v nd] by (rule lookups_resolve_note)
    with H of_define_lookup h show ?thesis
      unfolding handle_keeps_def by blast
  qed
qed

lemma handle_keeps_Suc:
  assumes v: "events_resolve d" and H: "handle_keeps d E fuel"
    and T: "handleTaskError_keeps d E fuel" and P: "polling_keeps d E fuel"
  shows "handle_keeps d E (Suc fuel)"
  unfolding handle_keeps_def
proof (intro allI impI)
  fix x w r w' n
  assume x: "of_define d x" and lr: "lookups_resolve d n w"
    and run: "handle (Suc fuel) E x w = Some (r, w')"
  have D: "Define w = d" using lr by (simp add: lookups_resolve_def)
  show "lookups_resolve d n w'"
  proof (cases x)
    case None
    with run lr show ?thesis by (auto simp: lookups_resolve_set_status)
  next
    case (Some nd)
    let ?a = "NextAddr w"
    let ?w2 = "after_executor E nd w"
    have nd: "of_define d (Some nd)" using x Some by simp
    have lr2: "lookups_resolve d n ?w2" using lr by (simp add: lookups_resolve_after)
    have D2: "Define ?w2 = d" using D by (simp add: after_executor_fields)
    have sev: "SuccessEvent nd = [] \<or> TaskNodes d (SuccessEvent nd) \<noteq> None"
      using v nd by (rule success_resolves)
    have err: "lookups_resolve d n w'"
      if "map_option (Pair False) (handleTaskError fuel E ?a nd ?w2) = Some (r, w')"
    proof -
      from that have "handleTaskError fuel E ?a nd ?w2 = Some w'" by auto
      with T nd lr2 show ?thesis unfolding handleTaskError_keeps_def by blast
    qed
    have succ: "lookups_resolve d n w'"
      if "handle fuel E (TaskNodes d (SuccessEvent nd)) (note_lookup (SuccessEvent nd) w3) = Some (r, w')"
        and "lookups_resolve d n w3" for w3
    proof -
      have "lookups_resolve d n (note_lookup (SuccessEvent nd) w3)"
        using that(2) sev by (rule lookups_resolve_note)
      with H of_define_lookup that(1) show ?thesis unfolding handle_keeps_def by blast
    qed
    from run Some have run': "(if execErr (Exec_Outcome (executor_run w nd)) \<noteq> None then
        map_option (Pair False) (handleTaskError fuel E ?a nd ?w2)
      else
        (case ReturnType nd of
            SyncFuncNode \<Rightarrow>
              handle fuel E (TaskNodes d (SuccessEvent nd))
                (note_lookup (SuccessEvent nd) (update_node ?a (Success E []) ?w2))
          | PollingNode \<Rightarrow>
              if Node_Status (Heap ?w2 ?a) = WorkFlowStatusFinished then
                handle fuel E (TaskNodes d (SuccessEvent nd))
                  (note_lookup (SuccessEvent nd) ?w2)
              else polling fuel E ?a nd 0 ?w2
          | OtherReturnType t \<Rightarrow> Some (True, ?w2))) = Some (r, w')"
      by (simp only: handle_step Let_def D2)
    show ?thesis
    proof (cases "execErr (Exec_Outcome (executor_run w nd))")
      case (Some er)
      with run' err show ?thesis by simp
    next
      case None
      show ?thesis
      proof (cases "ReturnType nd")
        case SyncFuncNode
        with None run' show ?thesis
          by (auto intro!: succ simp: lookups_resolve_update_node lr2)
      next
        case PollingNode
        show ?thesis
        proof (cases "Node_Status (Heap ?w2 ?a) = WorkFlowStatusFinished")
          case True
          with PollingNode None run' show ?thesis
            by (auto intro!: succ simp: lr2)
        next
          case False
          with PollingNode None run'
          have "polling fuel E ?a nd 0 ?w2 = Some (r, w')" by simp
          with P nd lr2 show ?thesis unfolding polling_keeps_def by blast
        qed
      next
        case (OtherReturnType t)
        with None run' lr2 show ?thesis by auto
      qed
    qed
  qed
qed

lemma polling_keeps_Suc:
  assumes v: "events_resolve d" and H: "handle_keeps d E fuel"
    and T: "handleTaskError_keeps d E fuel" and P: "polling_keeps d E fuel"
  shows "polling_keeps d E (Suc fuel)"
  unfolding polling_keeps_def
proof (intro allI impI)
  fix a nd sq w r w' n
  assume nd: "of_define d (Some nd)" and lr: "lookups_resolve d n w"
    and run: "polling (Suc fuel) E a nd sq w = Some (r, w')"
  have D: "Define w = d" using lr by (simp add: lookups_resolve_def)
  have sev: "SuccessEvent nd = [] \<or> TaskNodes d (SuccessEvent nd) \<noteq> None"
    using v nd by (rule success_resolves)
  have err: "lookups_resolve d n w'"
    if "handleTaskError fuel E a nd w3 = Some w'" and "lookups_resolve d n w3" for w3
    using T nd that unfolding handleTaskError_keeps_def by blast
  have succ: "lookups_resolve d n w'"
    if "handle fuel E (TaskNodes d (SuccessEvent nd)) (note_lookup (SuccessEvent nd) w3) = Some (r, w')"
      and "lookups_resolve d n w3" for w3
  proof -
    have "lookups_resolve d n (note_lookup (SuccessEvent nd) w3)"
      using that(2) sev by (rule lookups_resolve_note)
    with H of_define_lookup that(1) show ?thesis unfolding handle_keeps_def by blast
  qed
  have more: "lookups_resolve d n w'"
    if "polling fuel E a nd sq' w3 = Some (r, w')" and "lookups_resolve d n w3" for w3 sq'
    using P nd that unfolding polling_keeps_def by blast
  have k1: "lookups_resolve d n (update_node a f (w\<lparr>Ticks := t\<rparr>))" for f t
    using lr by (simp add: lookups_resolve_def update_node_def)
  have k2: "lookups_resolve d n (update_node a f (w\<lparr>Ticks := t, GetStatusCalls := g\<rparr>))" for f t g
    using lr by (simp add: lookups_resolve_def update_node_def)
  have k3: "lookups_resolve d n (w\<lparr>Ticks := t, GetStatusCalls := g\<rparr>)" for t g
    using lr by (simp add: lookups_resolve_def)
  from run show "lookups_resolve d n w'"
    by (auto simp: polling.simps(2) Let_def D split: if_splits sum.splits option.splits
        intro: err [OF _ k1] err [OF _ k2] succ [OF _ k2] more [OF _ k3])
qed

lemma keeps_all:
  assumes v: "events_resolve d"
  shows "handle_keeps d E fuel \<and> handleTaskError_keeps d E fuel \<and> polling_keeps d E fuel"
proof (induction fuel)
  case 0
  have h: "handle_keeps d E 0"
    unfolding handle_keeps_def
  proof (intro allI impI)
    fix x w r w' n
    assume "lookups_resolve d n w" "handle 0 E x w = Some (r, w')"
    then show "lookups_resolve d n w'"
      by (cases x) (auto simp: lookups_resolve_set_status)
  qed
  moreover from v h have "handleTaskError_keeps d E 0" by (rule handleTaskError_keeps_step)
  moreover have "polling_keeps d E 0" by (simp add: polling_keeps_def)
  ultimately show ?case by blast
next
  case (Suc fuel)
  then have h: "handle_keeps d E (Suc fuel)"
    using v handle_keeps_Suc by blast
  moreover from v h have "handleTaskError_keeps d E (Suc fuel)" by (rule handleTaskError_keeps_step)
  moreover from Suc have "polling_keeps d E (Suc fuel)"
    using v polling_keeps_Suc by blast
  ultimately show ?case by blast
qed

section \<open>Properties\<close>

text \<open>
  C1. Handling a \<^verbatim>\<open>nil\<close> node definition returns success and sets the workflow's status
  to \<open>Finished\<close>: whatever the fuel, the aggregation and the definition's executors, the
  result is \<open>True\<close> and the world differs from the one before in the workflow's status
  only, so no node record was allocated or handed to the gateway and no executor ran.
\<close>

theorem handle_nil:
  "\<exists>w'. handle fuel E None w = Some (True, w')
     \<and> w' = w\<lparr>Flow := (Flow w)\<lparr>Flow_Status := WorkFlowStatusFinished\<rparr>\<rparr>
     \<and> Flow_Status (Flow w') = WorkFlowStatusFinished
     \<and> Heap w' = Heap w \<and> NextAddr w' = NextAddr w \<and> Nodes w' = Nodes w
     \<and> CurrentNode w' = CurrentNode w
     \<and> CreateWorkFlowNodeCalls w' = CreateWorkFlowNodeCalls w
     \<and> UpdateWorkFlowDetailCalls w' = UpdateWorkFlowDetailCalls w
     \<and> ExecutorCalls w' = ExecutorCalls w \<and> GetStatusCalls w' = GetStatusCalls w
     \<and> EventLookups w' = EventLookups w \<and> Ticks w' = Ticks w"
  by (simp add: set_status_def)

text \<open>
  C2. When the executor of the \<^verbatim>\<open>start\<close> node returns an error and its fail event names a
  synchronous node whose executor returns no error and whose success event is empty, in
  a definition that has no node under the empty name, \<^verbatim>\<open>start\<close> returns (two units of
  fuel suffice) with the workflow in status \<open>Error\<close>: the walk itself returns \<open>False\<close> in
  a world whose workflow status the fail path has set to \<open>Finished\<close>, and
  \<^verbatim>\<open>complete(false)\<close>, applied after the walk, overwrites it. Both nodes are in the
  history; the first has status \<open>Error\<close>, the fail-path node \<open>Finished\<close>.
\<close>

theorem start_fail_path_error:
  assumes s: "TaskNodes (Define w) ''start'' = Some startDefine"
    and e: "Exec_Outcome (executor_run w startDefine) = Returned (Some err)"
    and f: "FailEvent startDefine \<noteq> []" "TaskNodes (Define w) (FailEvent startDefine) = Some cleanup"
    and c: "Exec_Outcome (Executor cleanup (Processing (new_node w cleanup))
                            (Exec_Data (executor_run w startDefine))) = Returned None"
    and t: "ReturnType cleanup = SyncFuncNode" "SuccessEvent cleanup = []"
           "TaskNodes (Define w) [] = None"
  shows "\<exists>w1 w2.
           handle (Suc (Suc fuel)) E (Some startDefine) (set_status WorkFlowStatusProcessing w) =
             Some (False, w1)
         \<and> Flow_Status (Flow w1) = WorkFlowStatusFinished
         \<and> start (Suc (Suc fuel)) E w = Some w2
         \<and> w2 = UpdateWorkFlowDetail (complete False w1)
         \<and> Flow_Status (Flow w2) = WorkFlowStatusError
         \<and> Nodes w2 = Nodes w @ [NextAddr w, Suc (NextAddr w)]
         \<and> Node_Status (Heap w2 (NextAddr w)) = WorkFlowStatusError
         \<and> Node_Status (Heap w2 (Suc (NextAddr w))) = WorkFlowStatusFinished"
proof -
  have l: "TaskNodes (Define w) (SuccessEvent cleanup) = None"
    using t(2) t(3) by simp
  from s e f c t(1) l show ?thesis
    by (rule start_fail_path_sync_cleanup)
qed

theorem start_fail_path_error_witness:
  "TaskNodes (Define (new_world fail_then_cleanup)) ''start'' = Some start_failing
   \<and> Exec_Outcome (executor_run (new_world fail_then_cleanup) start_failing) =
       Returned (Some (OtherError ''boom''))
   \<and> FailEvent start_failing \<noteq> []
   \<and> TaskNodes (Define (new_world fail_then_cleanup)) (FailEvent start_failing) = Some cleanup_ok
   \<and> Exec_Outcome (Executor cleanup_ok (Processing (new_node (new_world fail_then_cleanup) cleanup_ok))
         (Exec_Data (executor_run (new_world fail_then_cleanup) start_failing))) = Returned None
   \<and> ReturnType cleanup_ok = SyncFuncNode
   \<and> SuccessEvent cleanup_ok = []
   \<and> TaskNodes (Define (new_world fail_then_cleanup)) [] = None
   \<and> (\<exists>w2. start 2 E_running (new_world fail_then_cleanup) = Some w2
          \<and> Flow_Status (Flow w2) = WorkFlowStatusError
          \<and> Nodes w2 = [0, 1]
          \<and> Node_Status (Heap w2 0) = WorkFlowStatusError
          \<and> Node_Status (Heap w2 1) = WorkFlowStatusFinished)"
proof -
  let ?w = "new_world fail_then_cleanup"
  have h1: "TaskNodes (Define ?w) ''start'' = Some start_failing"
    by (simp add: new_world_def fail_then_cleanup_def)
  have h2: "Exec_Outcome (executor_run ?w start_failing) = Returned (Some (OtherError ''boom''))"
    by (simp add: executor_run_def start_failing_def node_define_def failing_executor_def)
  have h3: "FailEvent start_failing \<noteq> []"
    by (simp add: start_failing_def node_define_def)
  have h4: "TaskNodes (Define ?w) (FailEvent start_failing) = Some cleanup_ok"
    by (simp add: new_world_def fail_then_cleanup_def start_failing_def node_define_def)
  have h5: "Exec_Outcome (Executor cleanup_ok (Processing (new_node ?w cleanup_ok))
         (Exec_Data (executor_run ?w start_failing))) = Returned None"
    by (simp add: cleanup_ok_def node_define_def ok_executor_def)
  have h6: "ReturnType cleanup_ok = SyncFuncNode"
    by (simp add: cleanup_ok_def node_define_def)
  have h7: "SuccessEvent cleanup_ok = []"
    by (simp add: cleanup_ok_def node_define_def)
  have h8: "TaskNodes (Define ?w) [] = None"
    by (simp add: new_world_def fail_then_cleanup_def)
  from start_fail_path_error [OF h1 h2 h3 h4 h5 h6 h7 h8, where fuel = 0 and E = E_running]
  obtain w2 where "start (Suc (Suc 0)) E_running ?w = Some w2"
    "Flow_Status (Flow w2) = WorkFlowStatusError"
    "Nodes w2 = Nodes ?w @ [NextAddr ?w, Suc (NextAddr ?w)]"
    "Node_Status (Heap w2 (NextAddr ?w)) = WorkFlowStatusError"
    "Node_Status (Heap w2 (Suc (NextAddr ?w))) = WorkFlowStatusFinished"
    by blast
  then have "\<exists>w2. start 2 E_running ?w = Some w2
          \<and> Flow_Status (Flow w2) = WorkFlowStatusError
          \<and> Nodes w2 = [0, 1]
          \<and> Node_Status (Heap w2 0) = WorkFlowStatusError
          \<and> Node_Status (Heap w2 1) = WorkFlowStatusFinished"
    by (simp add: numeral_2_eq_2 new_world_def)
  with h1 h2 h3 h4 h5 h6 h7 h8 show ?thesis by blast
qed

text \<open>
  The fail-path node does not end \<open>Finished\<close> whatever its return type. Here the start
  node's executor returns an error, the fail event names a node whose executor returns
  no error and whose success event is empty, but whose return type is neither
  \<^verbatim>\<open>SyncFuncNode\<close> nor \<^verbatim>\<open>PollingNode\<close>: \<^verbatim>\<open>start\<close> returns with the workflow in status
  \<open>Error\<close>, and the fail-path node is left in status \<open>Processing\<close>.
\<close>

theorem start_fail_path_error_counterexample:
  "TaskNodes (Define (new_world fail_then_async_cleanup)) ''start'' = Some start_failing
   \<and> Exec_Outcome (executor_run (new_world fail_then_async_cleanup) start_failing) =
       Returned (Some (OtherError ''boom''))
   \<and> TaskNodes (Define (new_world fail_then_async_cleanup)) (FailEvent start_failing) =
       Some cleanup_async
   \<and> Exec_Outcome (Executor cleanup_async
         (Processing (new_node (new_world fail_then_async_cleanup) cleanup_async))
         (Exec_Data (executor_run (new_world fail_then_async_cleanup) start_failing))) = Returned None
   \<and> SuccessEvent cleanup_async = []
   \<and> start 2 E_running (new_world fail_then_async_cleanup) \<noteq> None
   \<and> Flow_Status (Flow (the (start 2 E_running (new_world fail_then_async_cleanup)))) =
       WorkFlowStatusError
   \<and> Nodes (the (start 2 E_running (new_world fail_then_async_cleanup))) = [0, 1]
   \<and> Node_Name (Heap (the (start 2 E_running (new_world fail_then_async_cleanup))) 1) = ''cleanup''
   \<and> Node_Status (Heap (the (start 2 E_running (new_world fail_then_async_cleanup))) 1) =
       WorkFlowStatusProcessing
   \<and> Node_Status (Heap (the (start 2 E_running (new_world fail_then_async_cleanup))) 1) \<noteq>
       WorkFlowStatusFinished"
proof -
  let ?w = "new_world fail_then_async_cleanup"
  let ?wp = "set_status WorkFlowStatusProcessing ?w"
  let ?wa = "after_executor E_running start_failing ?wp"
  let ?wf = "note_lookup (FailEvent start_failing)
               (?wa\<lparr>FlowError := Some (fmt_Errorf (Error_text E_running (OtherError ''boom'')))\<rparr>)"
  let ?wc = "after_executor E_running cleanup_async ?wf"
  let ?end = "UpdateWorkFlowDetail (complete False ?wc)"
  have h1: "TaskNodes (Define ?w) ''start'' = Some start_failing"
    by (simp add: new_world_def fail_then_async_cleanup_def)
  have h2: "Exec_Outcome (executor_run ?w start_failing) = Returned (Some (OtherError ''boom''))"
    by (simp add: executor_run_def start_failing_def node_define_def failing_executor_def)
  have h3: "FailEvent start_failing \<noteq> []"
    by (simp add: start_failing_def node_define_def)
  have h4: "TaskNodes (Define ?w) (FailEvent start_failing) = Some cleanup_async"
    by (simp add: new_world_def fail_then_async_cleanup_def start_failing_def node_define_def)
  have h5: "Exec_Outcome (Executor cleanup_async (Processing (new_node ?w cleanup_async))
         (Exec_Data (executor_run ?w start_failing))) = Returned None"
    by (simp add: cleanup_async_def node_define_def ok_executor_def)
  have h6: "SuccessEvent cleanup_async = []"
    by (simp add: cleanup_async_def node_define_def)
  have wp: "Define ?wp = Define ?w" "NextAddr ?wp = 0"
    by (simp_all add: set_status_def new_world_def)
  have e1: "Exec_Outcome (executor_run ?wp start_failing) = Returned (Some (OtherError ''boom''))"
    by (simp add: executor_run_def start_failing_def node_define_def failing_executor_def)
  have wf: "NextAddr ?wf = 1" "Nodes ?wf = [0]"
    by (simp_all add: note_lookup_def after_executor_fields set_status_def new_world_def)
  have c1: "execErr (Exec_Outcome (executor_run ?wf cleanup_async)) = None"
    by (simp add: executor_run_def cleanup_async_def node_define_def ok_executor_def)
  have rt: "ReturnType cleanup_async = OtherReturnType ''AsyncNode''"
    by (simp add: cleanup_async_def node_define_def)
  have hc: "handle (Suc 0) E_running (Some cleanup_async) ?wf = Some (True, ?wc)"
    using c1 rt by (simp add: handle_step Let_def)
  have he: "handleTaskError (Suc 0) E_running 0 start_failing ?wa = Some ?wc"
    using handleTaskError_after_error [OF e1, where fuel = "Suc 0" and E = E_running] h3 h4 hc
    by (simp add: wp)
  have h: "handle (Suc (Suc 0)) E_running (Some start_failing) ?wp = Some (False, ?wc)"
    using handle_executor_error [OF e1, where fuel = "Suc 0" and E = E_running] he
    by (simp add: wp)
  have st: "start 2 E_running ?w = Some ?end"
    using h h1 by (simp add: start_def Let_def wp numeral_2_eq_2)
  have g: "Flow_Status (Flow (UpdateWorkFlowDetail (complete False x))) = WorkFlowStatusError"
    "Nodes (UpdateWorkFlowDetail (complete False x)) = Nodes x"
    "Heap (UpdateWorkFlowDetail (complete False x)) = Heap x" for x
    by (simp_all add: UpdateWorkFlowDetail_def complete_def set_status_def)
  have f1: "Flow_Status (Flow ?end) = WorkFlowStatusError"
    by (rule g(1))
  have f2: "Nodes ?end = [0, 1]"
    by (simp only: g(2) after_executor_fields wf) simp
  have node: "Heap ?end 1 = Exec_Node (executor_run ?wf cleanup_async)"
    using c1 by (simp only: g(3) after_executor_Heap wf) simp
  have f3: "Node_Name (Heap ?end 1) = ''cleanup''"
    by (simp only: node)
       (simp add: executor_run_def cleanup_async_def node_define_def ok_executor_def
          Processing_def new_node_def)
  have f4: "Node_Status (Heap ?end 1) = WorkFlowStatusProcessing"
    by (simp only: node)
       (simp add: executor_run_def cleanup_async_def node_define_def ok_executor_def
          Processing_def new_node_def)
  from h1 h2 h4 h5 h6 st f1 f2 f3 f4 show ?thesis
    by simp
qed

text \<open>
  C3. A polling node whose executor returns no error and leaves the node in a status
  other than \<open>Finished\<close>, with a status service that reports a running operation at
  every query and a maximum \<open>M\<close> of polling ticks (\<open>0 \<le> M < 2\<^sup>3\<^sup>1 - 1\<close>, so that the
  \<^verbatim>\<open>int32\<close> counter reaches \<open>M + 1\<close> without wrapping): the loop queries the service
  \<open>M\<close> times, once on each of the ticks \<open>1..M\<close>; on tick \<open>M + 1\<close> it fails the node with
  the polling-timed-out error, without a further query, and calls the task-error
  handler; \<^verbatim>\<open>handle\<close> returns \<open>False\<close> when the handler returns, which it does at once
  when the node has no fail event.
\<close>

theorem polling_timeout:
  assumes rt: "ReturnType nd = PollingNode"
    and ok: "Exec_Outcome (executor_run w nd) = Returned None"
    and nf: "Node_Status (Exec_Node (executor_run w nd)) \<noteq> WorkFlowStatusFinished"
    and run: "\<forall>q opid. \<exists>op. GetStatus E q opid = Inr op \<and> Op_Status op = deployment_Running"
    and mx: "0 \<le> sint (maxPollingSequence E)" "sint (maxPollingSequence E) < 2 ^ 31 - 1"
  shows "\<exists>M opid wt.
           int M = sint (maxPollingSequence E)
         \<and> opid = Node_OperationID (Exec_Node (executor_run w nd))
         \<and> wt = update_node (NextAddr w) (Fail E (ErrorOfCode TIEM_WORKFLOW_NODE_POLLING_TIME_OUT))
                  ((after_executor E nd w)\<lparr>GetStatusCalls := GetStatusCalls w @ replicate M opid,
                     Ticks := Ticks w + Suc M\<rparr>)
         \<and> handle (Suc (Suc (M + fuel))) E (Some nd) w =
             map_option (Pair False) (handleTaskError fuel E (NextAddr w) nd wt)
         \<and> GetStatusCalls wt = GetStatusCalls w @ replicate M opid
         \<and> Ticks wt = Ticks w + Suc M
         \<and> Node_Status (Heap wt (NextAddr w)) = WorkFlowStatusError
         \<and> Node_Result (Heap wt (NextAddr w)) =
             Error_text E (ErrorOfCode TIEM_WORKFLOW_NODE_POLLING_TIME_OUT)
         \<and> (FailEvent nd = [] \<longrightarrow>
              handle (Suc (Suc (M + fuel))) E (Some nd) w =
                Some (False, wt\<lparr>FlowError := Some (fmt_Errorf
                  (Error_text E (ErrorOfCode TIEM_WORKFLOW_NODE_POLLING_TIME_OUT)))\<rparr>))"
proof -
  define M where "M = nat (sint (maxPollingSequence E))"
  define a where "a = NextAddr w"
  define w2 where "w2 = after_executor E nd w"
  define opid where "opid = Node_OperationID (Exec_Node (executor_run w nd))"
  define wq where "wq = w2\<lparr>GetStatusCalls := GetStatusCalls w @ replicate M opid, Ticks := Ticks w + M\<rparr>"
  define wt where "wt = update_node a (Fail E (ErrorOfCode TIEM_WORKFLOW_NODE_POLLING_TIME_OUT))
                  (w2\<lparr>GetStatusCalls := GetStatusCalls w @ replicate M opid, Ticks := Ticks w + Suc M\<rparr>)"
  have M: "int M = sint (maxPollingSequence E)"
    using mx(1) by (simp add: M_def)
  have "int (Suc M) < 2 ^ 31" using M mx(2) by simp
  then have SM: "Suc M < 2 ^ 31"
    by (simp only: of_nat_less_numeral_power_cancel_iff)
  have node: "Heap w2 a = Exec_Node (executor_run w nd)"
    using ok by (simp add: w2_def a_def after_executor_Heap)
  have w2f: "GetStatusCalls w2 = GetStatusCalls w" "Ticks w2 = Ticks w"
    by (simp_all add: w2_def after_executor_fields)
  have h: "handle (Suc (Suc (M + fuel))) E (Some nd) w = polling (M + Suc fuel) E a nd (of_nat 0) w2"
    using rt ok nf node by (simp add: handle_step Let_def a_def [symmetric] w2_def [symmetric])
  have cont: "\<forall>i<M. \<exists>op. GetStatus E (length (GetStatusCalls w2) + i) (Node_OperationID (Heap w2 a)) = Inr op
            \<and> Op_Status op \<noteq> deployment_Error \<and> Op_Status op \<noteq> deployment_Finished"
  proof (intro allI impI)
    fix i
    from run obtain op where "GetStatus E (length (GetStatusCalls w2) + i) (Node_OperationID (Heap w2 a)) = Inr op"
      "Op_Status op = deployment_Running" by blast
    then show "\<exists>op. GetStatus E (length (GetStatusCalls w2) + i) (Node_OperationID (Heap w2 a)) = Inr op
            \<and> Op_Status op \<noteq> deployment_Error \<and> Op_Status op \<noteq> deployment_Finished"
      by simp
  qed
  have "int (0 + M) \<le> sint (maxPollingSequence E)" using M by simp
  from polling_running [OF this cont, of "Suc fuel" nd]
  have p: "polling (M + Suc fuel) E a nd (of_nat 0) w2 = polling (Suc fuel) E a nd (of_nat M) wq"
    by (simp add: wq_def node opid_def w2f)
  have "sint (maxPollingSequence E) < int (Suc M)" using M by simp
  from polling_step_timeout [OF this SM, of fuel a nd wq]
  have t: "polling (Suc fuel) E a nd (of_nat M) wq =
      map_option (Pair False) (handleTaskError fuel E a nd wt)"
    by (simp add: wq_def wt_def)
  have res: "handle (Suc (Suc (M + fuel))) E (Some nd) w =
             map_option (Pair False) (handleTaskError fuel E a nd wt)"
    using h p t by simp
  have f1: "GetStatusCalls wt = GetStatusCalls w @ replicate M opid"
    and f2: "Ticks wt = Ticks w + Suc M"
    and f3: "Node_Status (Heap wt a) = WorkFlowStatusError"
    and f4: "Node_Result (Heap wt a) = Error_text E (ErrorOfCode TIEM_WORKFLOW_NODE_POLLING_TIME_OUT)"
    by (simp_all add: wt_def update_node_def Fail_def)
  have f5: "FailEvent nd = [] \<longrightarrow>
              handle (Suc (Suc (M + fuel))) E (Some nd) w =
                Some (False, wt\<lparr>FlowError := Some (fmt_Errorf
                  (Error_text E (ErrorOfCode TIEM_WORKFLOW_NODE_POLLING_TIME_OUT)))\<rparr>)"
    using res f4 by (simp add: handleTaskError_no_fail_event)
  show ?thesis
    using M res f1 f2 f3 f4 f5
    unfolding wt_def opid_def a_def w2_def by blast
qed

theorem polling_timeout_witness:
  "ReturnType poll_node = PollingNode
   \<and> Exec_Outcome (executor_run (new_world []) poll_node) = Returned None
   \<and> Node_Status (Exec_Node (executor_run (new_world []) poll_node)) \<noteq> WorkFlowStatusFinished
   \<and> (\<forall>q opid. \<exists>op. GetStatus E_running q opid = Inr op \<and> Op_Status op = deployment_Running)
   \<and> 0 \<le> sint (maxPollingSequence E_running)
   \<and> sint (maxPollingSequence E_running) < 2 ^ 31 - 1
   \<and> (\<exists>wt. handle 5 E_running (Some poll_node) (new_world []) = Some (False, wt)
          \<and> GetStatusCalls wt = [[], [], []]
          \<and> Ticks wt = 4
          \<and> Node_Status (Heap wt 0) = WorkFlowStatusError)"
proof -
  let ?w = "new_world []"
  have h1: "ReturnType poll_node = PollingNode"
    by (simp add: poll_node_def node_define_def)
  have h2: "Exec_Outcome (executor_run ?w poll_node) = Returned None"
    by (simp add: executor_run_def poll_node_def node_define_def ok_executor_def)
  have h3: "Node_Status (Exec_Node (executor_run ?w poll_node)) \<noteq> WorkFlowStatusFinished"
    by (simp add: executor_run_def poll_node_def node_define_def ok_executor_def Processing_def)
  have h4: "\<forall>q opid. \<exists>op. GetStatus E_running q opid = Inr op \<and> Op_Status op = deployment_Running"
    by (simp add: E_running_def running_operation_def)
  have h5: "0 \<le> sint (maxPollingSequence E_running)"
    by (simp add: E_running_def)
  have h6: "sint (maxPollingSequence E_running) < 2 ^ 31 - 1"
    by (simp add: E_running_def)
  have fe: "FailEvent poll_node = []"
    by (simp add: poll_node_def node_define_def)
  have id: "Node_OperationID (Exec_Node (executor_run ?w poll_node)) = []"
    by (simp add: executor_run_def poll_node_def node_define_def ok_executor_def Processing_def
        new_node_def)
  from polling_timeout [OF h1 h2 h3 h4 h5 h6, where fuel = 0]
  obtain M opid wt where M: "int M = sint (maxPollingSequence E_running)"
    and opid: "opid = Node_OperationID (Exec_Node (executor_run ?w poll_node))"
    and calls: "GetStatusCalls wt = GetStatusCalls ?w @ replicate M opid"
    and ticks: "Ticks wt = Ticks ?w + Suc M"
    and st: "Node_Status (Heap wt (NextAddr ?w)) = WorkFlowStatusError"
    and run: "FailEvent poll_node = [] \<longrightarrow>
              handle (Suc (Suc (M + 0))) E_running (Some poll_node) ?w =
                Some (False, wt\<lparr>FlowError := Some (fmt_Errorf
                  (Error_text E_running (ErrorOfCode TIEM_WORKFLOW_NODE_POLLING_TIME_OUT)))\<rparr>)"
    by blast
  from M have M3: "M = 3" by (simp add: E_running_def)
  have five: "Suc (Suc (3 + 0)) = 5" by simp
  let ?wt = "wt\<lparr>FlowError := Some (fmt_Errorf
                  (Error_text E_running (ErrorOfCode TIEM_WORKFLOW_NODE_POLLING_TIME_OUT)))\<rparr>"
  have "handle 5 E_running (Some poll_node) ?w = Some (False, ?wt)"
    using run fe M3 five by simp
  moreover have "GetStatusCalls ?wt = [[], [], []]"
    using calls M3 opid id by (simp add: new_world_def numeral_3_eq_3)
  moreover have "Ticks ?wt = 4"
    using ticks M3 by (simp add: new_world_def)
  moreover have "Node_Status (Heap ?wt 0) = WorkFlowStatusError"
    using st by (simp add: new_world_def)
  ultimately have "\<exists>wt. handle 5 E_running (Some poll_node) ?w = Some (False, wt)
          \<and> GetStatusCalls wt = [[], [], []]
          \<and> Ticks wt = 4
          \<and> Node_Status (Heap wt 0) = WorkFlowStatusError"
    by blast
  with h1 h2 h3 h4 h5 h6 show ?thesis by blast
qed

text \<open>
  C4. A polling node whose executor returns no error and leaves the node in a status
  other than \<open>Finished\<close>: when the status service reports a running operation on the
  first \<open>k\<close> queries and a finished one on query \<open>k + 1\<close>, which is within the maximum,
  the node is marked successful, with the operation's result as payload when that is
  not empty and with a \<^verbatim>\<open>nil\<close> payload when it is, and \<^verbatim>\<open>handle\<close> goes on with the node
  that the success event names and returns what that gives.
\<close>

theorem polling_finished:
  assumes rt: "ReturnType nd = PollingNode"
    and ok: "Exec_Outcome (executor_run w nd) = Returned None"
    and nf: "Node_Status (Exec_Node (executor_run w nd)) \<noteq> WorkFlowStatusFinished"
    and opid: "opid = Node_OperationID (Exec_Node (executor_run w nd))"
    and k: "int (Suc k) \<le> sint (maxPollingSequence E)"
    and run: "\<forall>i<k. \<exists>op. GetStatus E (length (GetStatusCalls w) + i) opid = Inr op
                \<and> Op_Status op = deployment_Running"
    and fin: "GetStatus E (length (GetStatusCalls w) + k) opid = Inr op"
             "Op_Status op = deployment_Finished"
  shows "\<exists>wk. wk = update_node (NextAddr w)
                    (if Op_Result op \<noteq> [] then Success E [Some (Op_Result op)] else Success E [None])
                    ((after_executor E nd w)\<lparr>GetStatusCalls := GetStatusCalls w @ replicate (Suc k) opid,
                       Ticks := Ticks w + Suc k\<rparr>)
         \<and> handle (Suc (Suc (k + fuel))) E (Some nd) w =
             handle fuel E (TaskNodes (Define w) (SuccessEvent nd)) (note_lookup (SuccessEvent nd) wk)
         \<and> Node_Status (Heap wk (NextAddr w)) = WorkFlowStatusFinished
         \<and> Node_Result (Heap wk (NextAddr w)) =
             Success_text E (Node_Result (Exec_Node (executor_run w nd)))
               [if Op_Result op \<noteq> [] then Some (Op_Result op) else None]"
proof -
  define a where "a = NextAddr w"
  define w2 where "w2 = after_executor E nd w"
  define wq where "wq = w2\<lparr>GetStatusCalls := GetStatusCalls w @ replicate k opid, Ticks := Ticks w + k\<rparr>"
  define wk where "wk = update_node a
                    (if Op_Result op \<noteq> [] then Success E [Some (Op_Result op)] else Success E [None])
                    (w2\<lparr>GetStatusCalls := GetStatusCalls w @ replicate (Suc k) opid,
                       Ticks := Ticks w + Suc k\<rparr>)"
  have node: "Heap w2 a = Exec_Node (executor_run w nd)"
    using ok by (simp add: w2_def a_def after_executor_Heap)
  have w2f: "GetStatusCalls w2 = GetStatusCalls w" "Ticks w2 = Ticks w" "Define w2 = Define w"
    by (simp_all add: w2_def after_executor_fields)
  have h: "handle (Suc (Suc (k + fuel))) E (Some nd) w = polling (k + Suc fuel) E a nd (of_nat 0) w2"
    using rt ok nf node by (simp add: handle_step Let_def a_def [symmetric] w2_def [symmetric])
  have cont: "\<forall>i<k. \<exists>op. GetStatus E (length (GetStatusCalls w2) + i) (Node_OperationID (Heap w2 a)) = Inr op
            \<and> Op_Status op \<noteq> deployment_Error \<and> Op_Status op \<noteq> deployment_Finished"
  proof (intro allI impI)
    fix i assume "i < k"
    with run obtain op where "GetStatus E (length (GetStatusCalls w) + i) opid = Inr op"
      "Op_Status op = deployment_Running" by blast
    then show "\<exists>op. GetStatus E (length (GetStatusCalls w2) + i) (Node_OperationID (Heap w2 a)) = Inr op
            \<and> Op_Status op \<noteq> deployment_Error \<and> Op_Status op \<noteq> deployment_Finished"
      by (simp add: w2f node opid)
  qed
  have "int (0 + k) \<le> sint (maxPollingSequence E)" using k by simp
  from polling_running [OF this cont, of "Suc fuel" nd]
  have p: "polling (k + Suc fuel) E a nd (of_nat 0) w2 = polling (Suc fuel) E a nd (of_nat k) wq"
    by (simp add: wq_def node opid w2f)
  have q: "GetStatus E (length (GetStatusCalls wq)) (Node_OperationID (Heap wq a)) = Inr op"
    using fin(1) by (simp add: wq_def node opid)
  from polling_step_finished [OF k q fin(2), of fuel nd]
  have t: "polling (Suc fuel) E a nd (of_nat k) wq =
      handle fuel E (TaskNodes (Define w) (SuccessEvent nd)) (note_lookup (SuccessEvent nd) wk)"
    by (simp add: wq_def wk_def w2f node opid replicate_append_same)
  have res: "handle (Suc (Suc (k + fuel))) E (Some nd) w =
      handle fuel E (TaskNodes (Define w) (SuccessEvent nd)) (note_lookup (SuccessEvent nd) wk)"
    using h p t by simp
  have f1: "Node_Status (Heap wk a) = WorkFlowStatusFinished"
    and f2: "Node_Result (Heap wk a) =
             Success_text E (Node_Result (Exec_Node (executor_run w nd)))
               [if Op_Result op \<noteq> [] then Some (Op_Result op) else None]"
    by (simp_all add: wk_def update_node_def Success_def node)
  show ?thesis
    using res f1 f2 unfolding wk_def a_def w2_def by blast
qed

theorem polling_finished_witness:
  "ReturnType poll_node = PollingNode
   \<and> Exec_Outcome (executor_run (new_world []) poll_node) = Returned None
   \<and> Node_Status (Exec_Node (executor_run (new_world []) poll_node)) \<noteq> WorkFlowStatusFinished
   \<and> int (Suc 1) \<le> sint (maxPollingSequence E_finishing)
   \<and> GetStatus E_finishing 0 [] = Inr running_operation
   \<and> Op_Status running_operation = deployment_Running
   \<and> GetStatus E_finishing 1 [] = Inr finished_operation
   \<and> Op_Status finished_operation = deployment_Finished
   \<and> (\<exists>w'. handle 3 E_finishing (Some poll_node) (new_world []) = Some (True, w')
          \<and> Node_Status (Heap w' 0) = WorkFlowStatusFinished
          \<and> Node_Result (Heap w' 0) = ''done''
          \<and> GetStatusCalls w' = [[], []]
          \<and> Ticks w' = 2)"
proof -
  let ?w = "new_world []"
  have h1: "ReturnType poll_node = PollingNode"
    by (simp add: poll_node_def node_define_def)
  have h2: "Exec_Outcome (executor_run ?w poll_node) = Returned None"
    by (simp add: executor_run_def poll_node_def node_define_def ok_executor_def)
  have h3: "Node_Status (Exec_Node (executor_run ?w poll_node)) \<noteq> WorkFlowStatusFinished"
    by (simp add: executor_run_def poll_node_def node_define_def ok_executor_def Processing_def)
  have h4: "[] = Node_OperationID (Exec_Node (executor_run ?w poll_node))"
    by (simp add: executor_run_def poll_node_def node_define_def ok_executor_def Processing_def
        new_node_def)
  have h5: "int (Suc 1) \<le> sint (maxPollingSequence E_finishing)"
    by (simp add: E_finishing_def E_running_def)
  have q0: "GetStatus E_finishing 0 [] = Inr running_operation"
    and r0: "Op_Status running_operation = deployment_Running"
    and q1: "GetStatus E_finishing 1 [] = Inr finished_operation"
    and r1: "Op_Status finished_operation = deployment_Finished"
    by (simp_all add: E_finishing_def E_running_def running_operation_def finished_operation_def)
  have h6: "\<forall>i<1. \<exists>op. GetStatus E_finishing (length (GetStatusCalls ?w) + i) [] = Inr op
                \<and> Op_Status op = deployment_Running"
    using q0 r0 by (simp add: new_world_def)
  have h7: "GetStatus E_finishing (length (GetStatusCalls ?w) + 1) [] = Inr finished_operation"
    using q1 by (simp add: new_world_def)
  have res: "Op_Result finished_operation = ''done''"
    by (simp add: finished_operation_def)
  have nores: "Node_Result (Exec_Node (executor_run ?w poll_node)) = []"
    by (simp add: executor_run_def poll_node_def node_define_def ok_executor_def Processing_def
        new_node_def)
  have lk: "TaskNodes (Define ?w) (SuccessEvent poll_node) = None"
    by (simp add: new_world_def)
  from polling_finished [OF h1 h2 h3 h4 h5 h6 h7 r1, where fuel = 0]
  obtain wk where wk: "wk = update_node (NextAddr ?w)
                    (if Op_Result finished_operation \<noteq> []
                     then Success E_finishing [Some (Op_Result finished_operation)]
                     else Success E_finishing [None])
                    ((after_executor E_finishing poll_node ?w)\<lparr>GetStatusCalls :=
                         GetStatusCalls ?w @ replicate (Suc 1) [],
                       Ticks := Ticks ?w + Suc 1\<rparr>)"
    and run: "handle (Suc (Suc (1 + 0))) E_finishing (Some poll_node) ?w =
             handle 0 E_finishing (TaskNodes (Define ?w) (SuccessEvent poll_node))
               (note_lookup (SuccessEvent poll_node) wk)"
    and st: "Node_Status (Heap wk (NextAddr ?w)) = WorkFlowStatusFinished"
    and rs: "Node_Result (Heap wk (NextAddr ?w)) =
             Success_text E_finishing (Node_Result (Exec_Node (executor_run ?w poll_node)))
               [if Op_Result finished_operation \<noteq> [] then Some (Op_Result finished_operation) else None]"
    by blast
  let ?w' = "set_status WorkFlowStatusFinished (note_lookup (SuccessEvent poll_node) wk)"
  have "handle 3 E_finishing (Some poll_node) ?w = Some (True, ?w')"
    using run lk by (simp add: numeral_3_eq_3)
  moreover have "Node_Status (Heap ?w' 0) = WorkFlowStatusFinished"
    using st by (simp add: set_status_def note_lookup_def new_world_def)
  moreover have "Node_Result (Heap ?w' 0) = ''done''"
    using rs res nores
    by (simp add: set_status_def note_lookup_def new_world_def E_finishing_def E_running_def)
  moreover have "GetStatusCalls ?w' = [[], []]"
    by (simp add: wk set_status_def note_lookup_def update_node_def new_world_def)
  moreover have "Ticks ?w' = 2"
    by (simp add: wk set_status_def note_lookup_def update_node_def new_world_def)
  ultimately have "\<exists>w'. handle 3 E_finishing (Some poll_node) ?w = Some (True, w')
          \<and> Node_Status (Heap w' 0) = WorkFlowStatusFinished
          \<and> Node_Result (Heap w' 0) = ''done''
          \<and> GetStatusCalls w' = [[], []]
          \<and> Ticks w' = 2"
    by blast
  with h1 h2 h3 h5 q0 r0 q1 r1 show ?thesis by blast
qed

text \<open>
  C5. A synchronous node whose executor returns no error is marked successful, and
  \<^verbatim>\<open>handle\<close> goes on with the node definition that \<^verbatim>\<open>TaskNodes\<close> holds for the success
  event, returning what that gives; when \<^verbatim>\<open>TaskNodes\<close> holds none (as for the empty
  event name in a definition without an empty key), \<^verbatim>\<open>handle\<close> returns success with the
  workflow \<open>Finished\<close>.
\<close>

theorem sync_success_transition:
  assumes rt: "ReturnType nd = SyncFuncNode"
    and ok: "Exec_Outcome (executor_run w nd) = Returned None"
  shows "\<exists>ws. ws = update_node (NextAddr w) (Success E []) (after_executor E nd w)
         \<and> Heap ws (NextAddr w) = Success E [] (Exec_Node (executor_run w nd))
         \<and> Node_Status (Heap ws (NextAddr w)) = WorkFlowStatusFinished
         \<and> handle (Suc fuel) E (Some nd) w =
             handle fuel E (TaskNodes (Define w) (SuccessEvent nd)) (note_lookup (SuccessEvent nd) ws)
         \<and> (TaskNodes (Define w) (SuccessEvent nd) = None \<longrightarrow>
              handle (Suc fuel) E (Some nd) w =
                Some (True, set_status WorkFlowStatusFinished (note_lookup (SuccessEvent nd) ws)))"
  using rt ok
  by (simp add: handle_step Let_def after_executor_fields after_executor_Heap update_node_def
      Success_def)

theorem sync_success_transition_witness:
  "ReturnType create_success = SyncFuncNode
   \<and> Exec_Outcome (executor_run (new_world two_steps) create_success) = Returned None
   \<and> TaskNodes (Define (new_world two_steps)) (SuccessEvent create_success) = None
   \<and> (\<exists>w'. handle 1 E_running (Some create_success) (new_world two_steps) = Some (True, w')
          \<and> Flow_Status (Flow w') = WorkFlowStatusFinished
          \<and> Node_Status (Heap w' 0) = WorkFlowStatusFinished)"
proof -
  let ?w = "new_world two_steps"
  have h1: "ReturnType create_success = SyncFuncNode"
    by (simp add: create_success_def node_define_def)
  have h2: "Exec_Outcome (executor_run ?w create_success) = Returned None"
    by (simp add: executor_run_def create_success_def node_define_def ok_executor_def)
  have lk: "TaskNodes (Define ?w) (SuccessEvent create_success) = None"
    by (simp add: new_world_def two_steps_def create_success_def node_define_def)
  from sync_success_transition [OF h1 h2, where fuel = 0 and E = E_running] lk
  obtain ws where st: "Node_Status (Heap ws (NextAddr ?w)) = WorkFlowStatusFinished"
    and run: "handle (Suc 0) E_running (Some create_success) ?w =
                Some (True, set_status WorkFlowStatusFinished
                              (note_lookup (SuccessEvent create_success) ws))"
    by blast
  let ?w' = "set_status WorkFlowStatusFinished (note_lookup (SuccessEvent create_success) ws)"
  have "handle 1 E_running (Some create_success) ?w = Some (True, ?w')"
    using run by simp
  moreover have "Flow_Status (Flow ?w') = WorkFlowStatusFinished"
    by (simp add: set_status_def)
  moreover have "Node_Status (Heap ?w' 0) = WorkFlowStatusFinished"
    using st by (simp add: set_status_def note_lookup_def new_world_def)
  ultimately have "\<exists>w'. handle 1 E_running (Some create_success) ?w = Some (True, w')
          \<and> Flow_Status (Flow w') = WorkFlowStatusFinished
          \<and> Node_Status (Heap w' 0) = WorkFlowStatusFinished"
    by blast
  with h1 h2 lk show ?thesis by blast
qed

text \<open>
  C6. When a node's executor returns an error, \<^verbatim>\<open>handle\<close> calls the task-error handler
  on the world in which \<^verbatim>\<open>executeTask\<close> returned and itself returns \<open>False\<close> whenever the
  handler returns. The handler records the node's result as the workflow's error and
  then handles the node named by the fail event if that is not empty, and does nothing
  more otherwise. The success event plays no part: replacing it by any other name
  leaves the outcome as it is.
\<close>

theorem executor_error_path:
  assumes err: "Exec_Outcome (executor_run w nd) = Returned (Some err)"
  shows "\<exists>wf. wf = (after_executor E nd w)\<lparr>FlowError := Some (fmt_Errorf (Error_text E err))\<rparr>
         \<and> handle (Suc fuel) E (Some nd) w =
             map_option (Pair False) (handleTaskError fuel E (NextAddr w) nd (after_executor E nd w))
         \<and> handleTaskError fuel E (NextAddr w) nd (after_executor E nd w) =
             (if FailEvent nd \<noteq> [] then
                map_option snd (handle fuel E (TaskNodes (Define w) (FailEvent nd))
                                  (note_lookup (FailEvent nd) wf))
              else Some wf)
         \<and> (\<forall>r w'. handle (Suc fuel) E (Some nd) w = Some (r, w') \<longrightarrow> \<not> r)
         \<and> (\<forall>event. handle (Suc fuel) E (Some (nd\<lparr>SuccessEvent := event\<rparr>)) w =
                      handle (Suc fuel) E (Some nd) w)"
proof -
  have node: "Node_Result (Heap (after_executor E nd w) (NextAddr w)) = Error_text E err"
    using err by (simp add: after_executor_Heap Fail_def)
  have h: "handle (Suc fuel) E (Some nd) w =
             map_option (Pair False) (handleTaskError fuel E (NextAddr w) nd (after_executor E nd w))"
    using err by (simp add: handle_step Let_def)
  have t: "handleTaskError fuel E (NextAddr w) nd (after_executor E nd w) =
             (if FailEvent nd \<noteq> [] then
                map_option snd (handle fuel E (TaskNodes (Define w) (FailEvent nd))
                   (note_lookup (FailEvent nd)
                      ((after_executor E nd w)\<lparr>FlowError := Some (fmt_Errorf (Error_text E err))\<rparr>)))
              else Some ((after_executor E nd w)\<lparr>FlowError := Some (fmt_Errorf (Error_text E err))\<rparr>))"
    by (simp add: handleTaskError.simps Let_def node after_executor_fields map_option_case
        split: option.splits prod.splits)
  have f: "\<forall>r w'. handle (Suc fuel) E (Some nd) w = Some (r, w') \<longrightarrow> \<not> r"
    by (auto simp: h)
  have i: "handle (Suc fuel) E (Some (nd\<lparr>SuccessEvent := event\<rparr>)) w = handle (Suc fuel) E (Some nd) w"
    for event
  proof -
    have r: "executor_run w (nd\<lparr>SuccessEvent := event\<rparr>) = executor_run w nd"
      by (simp add: executor_run_def new_node_def)
    have a: "after_executor E (nd\<lparr>SuccessEvent := event\<rparr>) w = after_executor E nd w"
      by (simp add: after_executor_def executeTask_def alloc_node_def new_node_def
          CreateWorkFlowNode_def Let_def)
    have e: "handleTaskError fuel E (NextAddr w) (nd\<lparr>SuccessEvent := event\<rparr>) (after_executor E nd w) =
             handleTaskError fuel E (NextAddr w) nd (after_executor E nd w)"
      by (simp add: handleTaskError.simps Let_def)
    show ?thesis
      using err by (simp add: handle_step [of fuel E "nd\<lparr>SuccessEvent := event\<rparr>"] h r a e)
  qed
  show ?thesis using h t f i by blast
qed

theorem executor_error_path_witness:
  "Exec_Outcome (executor_run (new_world []) failing_alone) = Returned (Some (OtherError ''boom''))
   \<and> FailEvent failing_alone = []
   \<and> (\<exists>w'. handle 1 E_running (Some failing_alone) (new_world []) = Some (False, w')
          \<and> FlowError w' = Some (fmt_Errorf ''boom'')
          \<and> ExecutorCalls w' = [''start'']
          \<and> EventLookups w' = [])"
proof -
  let ?w = "new_world []"
  have h1: "Exec_Outcome (executor_run ?w failing_alone) = Returned (Some (OtherError ''boom''))"
    by (simp add: executor_run_def failing_alone_def node_define_def failing_executor_def)
  have fe: "FailEvent failing_alone = []"
    by (simp add: failing_alone_def node_define_def)
  from executor_error_path [OF h1, where fuel = 0 and E = E_running]
  obtain wf where wf: "wf = (after_executor E_running failing_alone ?w)\<lparr>FlowError :=
                          Some (fmt_Errorf (Error_text E_running (OtherError ''boom'')))\<rparr>"
    and run: "handle (Suc 0) E_running (Some failing_alone) ?w =
             map_option (Pair False)
               (handleTaskError 0 E_running (NextAddr ?w) failing_alone
                  (after_executor E_running failing_alone ?w))"
    and hte: "handleTaskError 0 E_running (NextAddr ?w) failing_alone
                (after_executor E_running failing_alone ?w) =
             (if FailEvent failing_alone \<noteq> [] then
                map_option snd (handle 0 E_running (TaskNodes (Define ?w) (FailEvent failing_alone))
                                  (note_lookup (FailEvent failing_alone) wf))
              else Some wf)"
    by blast
  have "handle 1 E_running (Some failing_alone) ?w = Some (False, wf)"
    using run hte fe by simp
  moreover have "FlowError wf = Some (fmt_Errorf ''boom'')"
    by (simp add: wf E_running_def error_message_def)
  moreover have "ExecutorCalls wf = [''start'']"
    by (simp add: wf after_executor_fields new_world_def failing_alone_def node_define_def)
  moreover have "EventLookups wf = []"
    by (simp add: wf after_executor_fields new_world_def)
  ultimately have "\<exists>w'. handle 1 E_running (Some failing_alone) ?w = Some (False, w')
          \<and> FlowError w' = Some (fmt_Errorf ''boom'')
          \<and> ExecutorCalls w' = [''start'']
          \<and> EventLookups w' = []"
    by blast
  with h1 fe show ?thesis by blast
qed




text \<open>
  C8. \<^verbatim>\<open>destroy\<close> sets the workflow's status to \<open>Canceled\<close>. If there is a current node, that
  node, and no other, is failed with the error \<^verbatim>\<open>TIEM_TASK_CANCELED\<close> carrying the reason;
  if there is none, no node record changes. Nothing else of the aggregation changes, and
  the workflow and its nodes are handed to the gateway once.
\<close>

theorem destroy_cancels:
  "Flow (destroy E reason w) = (Flow w)\<lparr>Flow_Status := WorkFlowStatusCanceled\<rparr>
   \<and> Flow_Status (Flow (destroy E reason w)) = WorkFlowStatusCanceled
   \<and> (\<forall>a. CurrentNode w = Some a \<longrightarrow>
          Heap (destroy E reason w) = (Heap w)(a := Fail E (NewError TIEM_TASK_CANCELED reason) (Heap w a))
        \<and> Node_Status (Heap (destroy E reason w) a) = WorkFlowStatusError
        \<and> Node_Result (Heap (destroy E reason w) a) = Error_text E (NewError TIEM_TASK_CANCELED reason))
   \<and> (CurrentNode w = None \<longrightarrow> Heap (destroy E reason w) = Heap w)
   \<and> Define (destroy E reason w) = Define w
   \<and> CurrentNode (destroy E reason w) = CurrentNode w
   \<and> Nodes (destroy E reason w) = Nodes w
   \<and> FlowData (destroy E reason w) = FlowData w
   \<and> FlowError (destroy E reason w) = FlowError w
   \<and> NextAddr (destroy E reason w) = NextAddr w
   \<and> UpdateWorkFlowDetailCalls (destroy E reason w) =
       UpdateWorkFlowDetailCalls w @
         [(Flow (destroy E reason w), map (Heap (destroy E reason w)) (Nodes w))]"
  by (simp add: destroy_def Let_def set_status_def update_node_def UpdateWorkFlowDetail_def Fail_def
      split: option.splits)

theorem destroy_cancels_witness:
  "CurrentNode working_world = Some 0
   \<and> Flow_Status (Flow (destroy E_running ''stop'' working_world)) = WorkFlowStatusCanceled
   \<and> Node_Status (Heap (destroy E_running ''stop'' working_world) 0) = WorkFlowStatusError
   \<and> Node_Result (Heap (destroy E_running ''stop'' working_world) 0) = ''stop''
   \<and> Heap (destroy E_running ''stop'' working_world) 1 = Heap working_world 1
   \<and> CurrentNode (new_world two_steps) = None
   \<and> Flow_Status (Flow (destroy E_running ''stop'' (new_world two_steps))) = WorkFlowStatusCanceled
   \<and> Heap (destroy E_running ''stop'' (new_world two_steps)) = Heap (new_world two_steps)"
proof -
  have c: "CurrentNode working_world = Some 0"
    by (simp add: working_world_def)
  have n: "CurrentNode (new_world two_steps) = None"
    by (simp add: new_world_def)
  from destroy_cancels [of E_running "''stop''" working_world] c
  have f: "Flow_Status (Flow (destroy E_running ''stop'' working_world)) = WorkFlowStatusCanceled"
    and h: "Heap (destroy E_running ''stop'' working_world) =
            (Heap working_world)(0 := Fail E_running (NewError TIEM_TASK_CANCELED ''stop'') (Heap working_world 0))"
    and s: "Node_Status (Heap (destroy E_running ''stop'' working_world) 0) = WorkFlowStatusError"
    and r: "Node_Result (Heap (destroy E_running ''stop'' working_world) 0) =
            Error_text E_running (NewError TIEM_TASK_CANCELED ''stop'')"
    by blast+
  have r': "Node_Result (Heap (destroy E_running ''stop'' working_world) 0) = ''stop''"
    using r by (simp add: E_running_def error_message_def)
  have o: "Heap (destroy E_running ''stop'' working_world) 1 = Heap working_world 1"
    by (simp add: h)
  from destroy_cancels [of E_running "''stop''" "new_world two_steps"] n
  have f2: "Flow_Status (Flow (destroy E_running ''stop'' (new_world two_steps))) = WorkFlowStatusCanceled"
    and h2: "Heap (destroy E_running ''stop'' (new_world two_steps)) = Heap (new_world two_steps)"
    by blast+
  from c f s r' o n f2 h2 show ?thesis by blast
qed

text \<open>
  C9. In a definition that has been built, every success or fail event of every node
  that is not empty is a key of \<^verbatim>\<open>TaskNodes\<close>; and when \<^verbatim>\<open>handle\<close> is run on such a
  definition, from any of its nodes, every event name looked up during the run is empty
  or a key of \<^verbatim>\<open>TaskNodes\<close>, so that no lookup of a dangling name takes place.
\<close>

theorem built_define_no_dangling_lookup:
  assumes b: "buildWorkFlowDefine name nodes = Some d"
    and D: "Define w = d"
    and run: "handle fuel E (TaskNodes d entry) w = Some (r, w')"
  shows "(\<forall>key nodeDefine. TaskNodes d key = Some nodeDefine \<longrightarrow>
            (SuccessEvent nodeDefine \<noteq> [] \<longrightarrow> SuccessEvent nodeDefine \<in> dom (TaskNodes d))
          \<and> (FailEvent nodeDefine \<noteq> [] \<longrightarrow> FailEvent nodeDefine \<in> dom (TaskNodes d)))
       \<and> (\<exists>new. EventLookups w' = EventLookups w @ new
             \<and> (\<forall>event \<in> set new. event \<noteq> [] \<longrightarrow> event \<in> dom (TaskNodes d)))"
proof -
  have v: "events_resolve d" using b by (rule build_events_resolve)
  have lr: "lookups_resolve d (EventLookups w) w"
    using D by (simp add: lookups_resolve_def)
  from keeps_all [OF v, of E fuel] have "handle_keeps d E fuel" by blast
  with of_define_lookup lr run have lr': "lookups_resolve d (EventLookups w) w'"
    unfolding handle_keeps_def by blast
  let ?new = "drop (length (EventLookups w)) (EventLookups w')"
  have "EventLookups w' = EventLookups w @ ?new"
    using lr' append_take_drop_id [of "length (EventLookups w)" "EventLookups w'"]
    by (simp add: lookups_resolve_def)
  moreover have "\<forall>event \<in> set ?new. event \<noteq> [] \<longrightarrow> event \<in> dom (TaskNodes d)"
    using lr' by (auto simp: lookups_resolve_def list_all_iff)
  ultimately have "\<exists>new. EventLookups w' = EventLookups w @ new
             \<and> (\<forall>event \<in> set new. event \<noteq> [] \<longrightarrow> event \<in> dom (TaskNodes d))"
    by blast
  with v show ?thesis
    by (auto simp: events_resolve_def)
qed

theorem built_define_no_dangling_lookup_witness:
  "buildWorkFlowDefine ''flow'' two_steps = Some (Define (new_world two_steps))
   \<and> (\<exists>w'. handle 2 E_running (TaskNodes (Define (new_world two_steps)) ''start'')
                 (new_world two_steps) = Some (True, w')
          \<and> (\<forall>event \<in> set (EventLookups w').
                 event \<noteq> [] \<longrightarrow> event \<in> dom (TaskNodes (Define (new_world two_steps)))))
   \<and> SuccessEvent start_ok \<noteq> []
   \<and> SuccessEvent start_ok \<in> dom (TaskNodes (Define (new_world two_steps)))"
proof -
  let ?w = "new_world two_steps"
  let ?d = "Define ?w"
  have b: "buildWorkFlowDefine ''flow'' two_steps = Some ?d"
    by (simp add: buildWorkFlowDefine_def resolves_def two_steps_def new_world_def start_ok_def
        create_success_def node_define_def)
  have s1: "TaskNodes ?d ''start'' = Some start_ok"
    by (simp add: new_world_def two_steps_def)
  have rt1: "ReturnType start_ok = SyncFuncNode"
    by (simp add: start_ok_def node_define_def)
  have ok1: "Exec_Outcome (executor_run ?w start_ok) = Returned None"
    by (simp add: executor_run_def start_ok_def node_define_def ok_executor_def)
  let ?w1 = "note_lookup (SuccessEvent start_ok)
               (update_node (NextAddr ?w) (Success E_running []) (after_executor E_running start_ok ?w))"
  have d1: "Define ?w1 = ?d"
    by (simp add: note_lookup_def update_node_def after_executor_fields)
  have s2: "TaskNodes ?d (SuccessEvent start_ok) = Some create_success"
    by (simp add: new_world_def two_steps_def start_ok_def node_define_def)
  have rt2: "ReturnType create_success = SyncFuncNode"
    by (simp add: create_success_def node_define_def)
  have ok2: "Exec_Outcome (executor_run ?w1 create_success) = Returned None"
    by (simp add: executor_run_def create_success_def node_define_def ok_executor_def)
  have s3: "TaskNodes ?d (SuccessEvent create_success) = None"
    by (simp add: new_world_def two_steps_def create_success_def node_define_def)
  have "handle (Suc (Suc 0)) E_running (Some start_ok) ?w =
        handle (Suc 0) E_running (Some create_success) ?w1"
    using handle_sync_ok [OF rt1 ok1, where fuel = "Suc 0" and E = E_running] s2 by simp
  also have "\<dots> = handle 0 E_running None
        (note_lookup (SuccessEvent create_success)
           (update_node (NextAddr ?w1) (Success E_running []) (after_executor E_running create_success ?w1)))"
    using handle_sync_ok [OF rt2 ok2, where fuel = 0 and E = E_running] s3 d1 by simp
  finally obtain w' where run: "handle 2 E_running (TaskNodes ?d ''start'') ?w = Some (True, w')"
    by (simp add: s1 numeral_2_eq_2)
  from built_define_no_dangling_lookup [OF b refl run]
  obtain new where ev: "\<forall>key nodeDefine. TaskNodes ?d key = Some nodeDefine \<longrightarrow>
            (SuccessEvent nodeDefine \<noteq> [] \<longrightarrow> SuccessEvent nodeDefine \<in> dom (TaskNodes ?d))
          \<and> (FailEvent nodeDefine \<noteq> [] \<longrightarrow> FailEvent nodeDefine \<in> dom (TaskNodes ?d))"
    and new: "EventLookups w' = EventLookups ?w @ new"
      "\<forall>event \<in> set new. event \<noteq> [] \<longrightarrow> event \<in> dom (TaskNodes ?d)"
    by blast
  have "EventLookups w' = new"
    using new(1) by (simp add: new_world_def)
  with new(2) have all: "\<forall>event \<in> set (EventLookups w'). event \<noteq> [] \<longrightarrow> event \<in> dom (TaskNodes ?d)"
    by simp
  have ne: "SuccessEvent start_ok \<noteq> []"
    by (simp add: start_ok_def node_define_def)
  with ev s1 have "SuccessEvent start_ok \<in> dom (TaskNodes ?d)"
    by blast
  with b run all ne show ?thesis by blast
qed

text \<open>
  The check is the builder's alone: \<^verbatim>\<open>handle\<close> has no guard of its own. On a definition
  that the builder rejects, the name that is no key is looked up, nothing is found, and
  the workflow is finished as after a last node.
\<close>

lemma unbuilt_define_dangling_lookup:
  "buildWorkFlowDefine ''flow'' [(''start'', start_dangling)] = None
   \<and> (\<exists>w'. handle 1 E_running (Some start_dangling) (new_world [(''start'', start_dangling)]) =
               Some (True, w')
          \<and> EventLookups w' = [''missing'']
          \<and> Flow_Status (Flow w') = WorkFlowStatusFinished)"
proof -
  let ?w = "new_world [(''start'', start_dangling)]"
  have b: "buildWorkFlowDefine ''flow'' [(''start'', start_dangling)] = None"
    by (simp add: buildWorkFlowDefine_def resolves_def start_dangling_def node_define_def)
  have rt: "ReturnType start_dangling = SyncFuncNode"
    by (simp add: start_dangling_def node_define_def)
  have ok: "Exec_Outcome (executor_run ?w start_dangling) = Returned None"
    by (simp add: executor_run_def start_dangling_def node_define_def ok_executor_def)
  have lk: "TaskNodes (Define ?w) (SuccessEvent start_dangling) = None"
    by (simp add: new_world_def start_dangling_def node_define_def)
  let ?w' = "set_status WorkFlowStatusFinished
               (note_lookup (SuccessEvent start_dangling)
                  (update_node (NextAddr ?w) (Success E_running [])
                     (after_executor E_running start_dangling ?w)))"
  have "handle 1 E_running (Some start_dangling) ?w = Some (True, ?w')"
    using handle_sync_ok [OF rt ok, where fuel = 0 and E = E_running] lk by simp
  moreover have "EventLookups ?w' = [''missing'']"
    by (simp add: set_status_def note_lookup_def update_node_def after_executor_fields
        new_world_def start_dangling_def node_define_def)
  moreover have "Flow_Status (Flow ?w') = WorkFlowStatusFinished"
    by (simp add: set_status_def)
  ultimately show ?thesis using b by blast
qed

text \<open>
  C10. For a node definition whose return type is neither \<^verbatim>\<open>SyncFuncNode\<close> nor
  \<^verbatim>\<open>PollingNode\<close> and whose executor returns no error, \<^verbatim>\<open>handle\<close> returns success right
  after \<^verbatim>\<open>executeTask\<close>: the node record is left as the executor left it (in status
  \<open>Processing\<close> if the executor did not change the status), no event name is looked up,
  no further executor runs and the workflow's status is not changed.
\<close>

theorem other_return_type_stops:
  assumes rt: "ReturnType nd \<noteq> SyncFuncNode" "ReturnType nd \<noteq> PollingNode"
    and ok: "Exec_Outcome (executor_run w nd) = Returned None"
  shows "handle (Suc fuel) E (Some nd) w = Some (True, after_executor E nd w)
       \<and> Heap (after_executor E nd w) (NextAddr w) = Exec_Node (executor_run w nd)
       \<and> EventLookups (after_executor E nd w) = EventLookups w
       \<and> ExecutorCalls (after_executor E nd w) = ExecutorCalls w @ [Name nd]
       \<and> Nodes (after_executor E nd w) = Nodes w @ [NextAddr w]
       \<and> Flow_Status (Flow (after_executor E nd w)) = Flow_Status (Flow w)
       \<and> (Node_Status (Exec_Node (executor_run w nd)) = WorkFlowStatusProcessing \<longrightarrow>
            Node_Status (Heap (after_executor E nd w) (NextAddr w)) = WorkFlowStatusProcessing)"
  using rt ok
  by (cases "ReturnType nd") (simp_all add: handle_step Let_def after_executor_fields after_executor_Heap)

theorem other_return_type_stops_witness:
  "ReturnType async_ok \<noteq> SyncFuncNode
   \<and> ReturnType async_ok \<noteq> PollingNode
   \<and> Exec_Outcome (executor_run (new_world []) async_ok) = Returned None
   \<and> Node_Status (Exec_Node (executor_run (new_world []) async_ok)) = WorkFlowStatusProcessing
   \<and> handle 1 E_running (Some async_ok) (new_world []) =
       Some (True, after_executor E_running async_ok (new_world []))
   \<and> Node_Status (Heap (after_executor E_running async_ok (new_world [])) 0) = WorkFlowStatusProcessing
   \<and> EventLookups (after_executor E_running async_ok (new_world [])) = []
   \<and> ExecutorCalls (after_executor E_running async_ok (new_world [])) = [''start'']"
proof -
  let ?w = "new_world []"
  have h1: "ReturnType async_ok \<noteq> SyncFuncNode" and h2: "ReturnType async_ok \<noteq> PollingNode"
    by (simp_all add: async_ok_def node_define_def)
  have h3: "Exec_Outcome (executor_run ?w async_ok) = Returned None"
    by (simp add: executor_run_def async_ok_def node_define_def ok_executor_def)
  have p: "Node_Status (Exec_Node (executor_run ?w async_ok)) = WorkFlowStatusProcessing"
    by (simp add: executor_run_def async_ok_def node_define_def ok_executor_def Processing_def)
  from other_return_type_stops [OF h1 h2 h3, where fuel = 0 and E = E_running] p
  have run: "handle (Suc 0) E_running (Some async_ok) ?w = Some (True, after_executor E_running async_ok ?w)"
    and st: "Node_Status (Heap (after_executor E_running async_ok ?w) (NextAddr ?w)) = WorkFlowStatusProcessing"
    and lk: "EventLookups (after_executor E_running async_ok ?w) = EventLookups ?w"
    and ex: "ExecutorCalls (after_executor E_running async_ok ?w) = ExecutorCalls ?w @ [Name async_ok]"
    by blast+
  have "handle 1 E_running (Some async_ok) ?w = Some (True, after_executor E_running async_ok ?w)"
    using run by simp
  moreover have "Node_Status (Heap (after_executor E_running async_ok ?w) 0) = WorkFlowStatusProcessing"
    using st by (simp add: new_world_def)
  moreover have "EventLookups (after_executor E_running async_ok ?w) = []"
    using lk by (simp add: new_world_def)
  moreover have "ExecutorCalls (after_executor E_running async_ok ?w) = [''start'']"
    using ex by (simp add: new_world_def async_ok_def node_define_def)
  ultimately show ?thesis using h1 h2 h3 p by blast
qed

text \<open>
  The node record is not in every case left in status \<open>Processing\<close>: an executor may
  itself set the node's status, which the polling branch of \<^verbatim>\<open>handle\<close> expects executors
  to do. Here the executor sets \<open>Finished\<close> and returns no error, and the node record
  ends \<open>Finished\<close>.
\<close>

theorem other_return_type_counterexample:
  "ReturnType async_finishing \<noteq> SyncFuncNode
   \<and> ReturnType async_finishing \<noteq> PollingNode
   \<and> Exec_Outcome (executor_run (new_world []) async_finishing) = Returned None
   \<and> handle 1 E_running (Some async_finishing) (new_world []) =
       Some (True, after_executor E_running async_finishing (new_world []))
   \<and> Node_Status (Heap (after_executor E_running async_finishing (new_world []))
                      (NextAddr (new_world []))) = WorkFlowStatusFinished
   \<and> Node_Status (Heap (after_executor E_running async_finishing (new_world []))
                      (NextAddr (new_world []))) \<noteq> WorkFlowStatusProcessing"
proof -
  let ?w = "new_world []"
  have h1: "ReturnType async_finishing \<noteq> SyncFuncNode"
    and h2: "ReturnType async_finishing \<noteq> PollingNode"
    and rt: "ReturnType async_finishing = OtherReturnType ''AsyncNode''"
    by (simp_all add: async_finishing_def node_define_def)
  have h3: "Exec_Outcome (executor_run ?w async_finishing) = Returned None"
    by (simp add: executor_run_def async_finishing_def node_define_def finishing_executor_def)
  have run: "handle 1 E_running (Some async_finishing) ?w =
       Some (True, after_executor E_running async_finishing ?w)"
    using handle_step [of 0 E_running async_finishing ?w] h3 rt by (simp add: Let_def)
  have st: "Node_Status (Heap (after_executor E_running async_finishing ?w) (NextAddr ?w)) =
            WorkFlowStatusFinished"
    using h3
    by (simp add: after_executor_Heap)
       (simp add: executor_run_def async_finishing_def node_define_def finishing_executor_def)
  from h1 h2 h3 run st show ?thesis by simp
qed

end
